theory Spec2Isabelle
  imports Main "HOL-Library.Sublist"
begin

section \<open>Python strings\<close>

text \<open>
  A Python \<open>str\<close> is modelled as a \<open>string\<close> (a list of characters). The
  character classes are the ASCII ones: \<open>str.isspace\<close> holds of the ten ASCII characters
  Python counts as whitespace (tab, line feed, vertical tab, form feed, carriage return,
  the four separators 0x1C to 0x1F and the space), and \<open>str.lower\<close> maps \<open>A\<close> to
  \<open>Z\<close> onto \<open>a\<close> to \<open>z\<close> and leaves every other character alone.
\<close>

definition isspace :: "char \<Rightarrow> bool" where
  "isspace c = (c \<in> set [CHR 0x09, CHR 0x0A, CHR 0x0B, CHR 0x0C, CHR 0x0D,
                          CHR 0x1C, CHR 0x1D, CHR 0x1E, CHR 0x1F, CHR 0x20])"

definition lower_char :: "char \<Rightarrow> char" where
  "lower_char c =
     (case map_of (zip ''ABCDEFGHIJKLMNOPQRSTUVWXYZ'' ''abcdefghijklmnopqrstuvwxyz'') c of
        None \<Rightarrow> c
      | Some d \<Rightarrow> d)"

definition lower :: "string \<Rightarrow> string" where
  "lower s = map lower_char s"

text \<open>\<open>s.lstrip()\<close>, \<open>s.rstrip()\<close> and \<open>s.strip()\<close> with no argument.\<close>

definition lstrip :: "string \<Rightarrow> string" where
  "lstrip s = dropWhile isspace s"

definition rstrip :: "string \<Rightarrow> string" where
  "rstrip s = rev (dropWhile isspace (rev s))"

definition strip :: "string \<Rightarrow> string" where
  "strip s = rstrip (lstrip s)"

text \<open>\<open>s.startswith(p)\<close> is \<^const>\<open>prefix\<close>; \<open>p in s\<close> is \<open>contains p s\<close>.\<close>

fun contains :: "string \<Rightarrow> string \<Rightarrow> bool" where
  "contains p [] = (p = [])"
| "contains p (c # cs) = (prefix p (c # cs) \<or> contains p cs)"

section \<open>bot.py: ConversationMemory\<close>

text \<open>
  An entry of the history is the dictionary with the keys \<open>user\<close>, \<open>bot\<close> and
  \<open>timestamp\<close>. The time stamp is \<open>datetime.now().isoformat()\<close>; the model takes the
  clock's reading as an argument.
\<close>

record entry =
  user :: string
  bot :: string
  timestamp :: string

text \<open>
  \<open>collections.deque(maxlen=n)\<close>: \<open>append\<close> adds the item on the right and, when the
  deque is then longer than \<open>maxlen\<close>, removes one item on the left.
\<close>

definition deque_append :: "nat \<Rightarrow> 'a list \<Rightarrow> 'a \<Rightarrow> 'a list" where
  "deque_append maxlen d x = (let d' = d @ [x] in if maxlen < length d' then tl d' else d')"

record ConversationMemory =
  history :: "entry list"
  max_history :: nat
  last_user_query :: "string option"

text \<open>
  The constructor. \<open>deque(maxlen=n)\<close> raises \<open>ValueError\<close> for a negative \<open>n\<close>, which
  is the value \<open>None\<close> here.
\<close>

definition ConversationMemory_init :: "int \<Rightarrow> ConversationMemory option" where
  "ConversationMemory_init k =
     (if k < 0 then None
      else Some \<lparr>history = [], max_history = nat k, last_user_query = None\<rparr>)"

definition save_context :: "ConversationMemory \<Rightarrow> string \<Rightarrow> string \<Rightarrow> string \<Rightarrow> ConversationMemory" where
  "save_context m user_input bot_response now =
     m\<lparr>history := deque_append (max_history m) (history m)
                     \<lparr>user = user_input, bot = bot_response, timestamp = now\<rparr>,
       last_user_query := Some user_input\<rparr>"

text \<open>\<open>sep.join(xs)\<close>.\<close>

fun join :: "string \<Rightarrow> string list \<Rightarrow> string" where
  "join sep [] = []"
| "join sep [x] = x"
| "join sep (x # y # ys) = x @ sep @ join sep (y # ys)"

definition load_memory :: "ConversationMemory \<Rightarrow> string" where
  "load_memory m =
     (if history m = [] then []
      else join [CHR 0x0A]
             (concat (map (\<lambda>e. [''User: '' @ user e, ''Bot: '' @ bot e]) (history m))))"

definition get_last_user_input :: "ConversationMemory \<Rightarrow> string" where
  "get_last_user_input m = (case last_user_query m of None \<Rightarrow> [] | Some q \<Rightarrow> q)"

definition clear :: "ConversationMemory \<Rightarrow> ConversationMemory" where
  "clear m = m\<lparr>history := [], last_user_query := None\<rparr>"

text \<open>Recording a sequence of turns (user input, bot response, time stamp), oldest first.\<close>

fun record_turns :: "ConversationMemory \<Rightarrow> (string \<times> string \<times> string) list \<Rightarrow> ConversationMemory" where
  "record_turns m [] = m"
| "record_turns m ((u, b, t) # ts) = record_turns (save_context m u b t) ts"

fun turn_entry :: "string \<times> string \<times> string \<Rightarrow> entry" where
  "turn_entry (u, b, t) = \<lparr>user = u, bot = b, timestamp = t\<rparr>"

section \<open>Query normalisation\<close>

text \<open>
  The loop of \<open>_clean_query\<close>: the first prefix of the list that the lower-cased query
  starts with is cut from the query, the rest is stripped, and the loop ends.
\<close>

fun strip_prefix_loop :: "string list \<Rightarrow> string \<Rightarrow> string" where
  "strip_prefix_loop [] query = query"
| "strip_prefix_loop (p # ps) query =
     (if prefix p (lower query) then strip (drop (length p) query)
      else strip_prefix_loop ps query)"

subsection \<open>bot.py: KnowledgeBot._clean_query\<close>

definition kb_prefixes :: "string list" where
  "kb_prefixes =
     [''who is'', ''who was'', ''who are'', ''who does'',
      ''what is'', ''what was'', ''what are'', ''what does'',
      ''where is'', ''where was'', ''where are'', ''where does'',
      ''when is'', ''when was'', ''when are'', ''when does'',
      ''why is'', ''why was'', ''why are'', ''why does'',
      ''how is'', ''how was'', ''how are'', ''how does'',
      ''tell me about'', ''tell me more about'', ''describe'',
      ''explain'', ''information about'', ''details about'',
      ''give me information about'', ''i want to know about'']"

definition kb_clean_query :: "string \<Rightarrow> string" where
  "kb_clean_query query = strip_prefix_loop kb_prefixes (strip query)"

subsection \<open>langchain_bot.py: LangChainKnowledgeBot._clean_query\<close>

definition lc_prefixes :: "string list" where
  "lc_prefixes =
     [''who is'', ''who was'', ''what is'', ''what was'',
      ''where is'', ''where was'', ''when is'', ''when was'',
      ''tell me about'', ''explain'', ''describe'',
      ''more about'', ''tell more about'']"

definition lc_clean_query :: "string \<Rightarrow> string" where
  "lc_clean_query query = strip_prefix_loop lc_prefixes (strip query)"

section \<open>Regular expressions of langchain_bot.py\<close>

text \<open>
  The patterns of the source are fixed, so each is modelled by the matcher that Python's
  backtracking \<open>re\<close> engine runs for it: \<open>re.search\<close> tries the start positions from
  left to right and returns the first match, a greedy quantifier tries the longest run
  first, a lazy one the shortest.
\<close>

subsection \<open>LangChainKnowledgeBot._extract_entity\<close>

text \<open>
  Every pattern is a literal followed by \<^verbatim>\<open>\s+(.+?)(?:\?|$)\<close>.

  \<open>$\<close> (without \<open>MULTILINE\<close>) matches at the end of the string and before a line feed
  that ends the string; \<open>.\<close> (without \<open>DOTALL\<close>) matches every character but the line
  feed.
\<close>

definition at_terminator :: "string \<Rightarrow> bool" where
  "at_terminator rest =
     (case rest of
        [] \<Rightarrow> True
      | d # ds \<Rightarrow> d = CHR ''?'' \<or> (d = CHR 0x0A \<and> ds = []))"

text \<open>
  \<^verbatim>\<open>(.+?)(?:\?|$)\<close> at the start of a string: the group takes one character, then one
  more for as long as the terminator does not follow it; \<open>acc\<close> is what the group holds.
\<close>

fun lazy_group :: "string \<Rightarrow> string \<Rightarrow> string option" where
  "lazy_group acc [] = None"
| "lazy_group acc (c # cs) =
     (if c = CHR 0x0A then None
      else if at_terminator cs then Some (acc @ [c])
      else lazy_group (acc @ [c]) cs)"

text \<open>
  \<^verbatim>\<open>\s+\<close> followed by the group: the greedy \<open>\s+\<close> first takes the whole run of
  whitespace and gives characters back one at a time, down to one, while the rest of the
  pattern fails.
\<close>

fun spaces_then_group :: "nat \<Rightarrow> string \<Rightarrow> string option" where
  "spaces_then_group 0 rest = None"
| "spaces_then_group (Suc k) rest =
     (case lazy_group [] (drop (Suc k) rest) of
        Some g \<Rightarrow> Some g
      | None \<Rightarrow> spaces_then_group k rest)"

definition match_at :: "string \<Rightarrow> string \<Rightarrow> string option" where
  "match_at lit s =
     (if prefix lit s
      then (let rest = drop (length lit) s
            in spaces_then_group (length (takeWhile isspace rest)) rest)
      else None)"

text \<open>\<open>re.search(pattern, s)\<close>, giving \<open>match.group(1)\<close>.\<close>

fun entity_search :: "string \<Rightarrow> string \<Rightarrow> string option" where
  "entity_search lit [] = match_at lit []"
| "entity_search lit (c # cs) =
     (case match_at lit (c # cs) of
        Some g \<Rightarrow> Some g
      | None \<Rightarrow> entity_search lit cs)"

text \<open>
  \<^verbatim>\<open>re.sub(r'\b(the|a|an)\b', '', entity)\<close>. \<^verbatim>\<open>\w\<close> holds of the letters, the digits
  and the underscore; \<^verbatim>\<open>\b\<close> holds where exactly one of the characters before and
  after the position is a \<^verbatim>\<open>\w\<close> character.
\<close>

definition isword :: "char \<Rightarrow> bool" where
  "isword c =
     (c \<in> set ''abcdefghijklmnopqrstuvwxyzABCDEFGHIJKLMNOPQRSTUVWXYZ0123456789_'')"

definition word_boundary :: "char option \<Rightarrow> string \<Rightarrow> bool" where
  "word_boundary prev s =
     ((case prev of None \<Rightarrow> False | Some c \<Rightarrow> isword c)
      \<noteq> (case s of [] \<Rightarrow> False | c # _ \<Rightarrow> isword c))"

text \<open>The alternatives in the order of the pattern; the result is the length of the match.\<close>

fun alternatives_at :: "string list \<Rightarrow> string \<Rightarrow> nat option" where
  "alternatives_at [] s = None"
| "alternatives_at (w # ws) s =
     (if w \<noteq> [] \<and> prefix w s \<and> word_boundary (Some (last w)) (drop (length w) s)
      then Some (length w)
      else alternatives_at ws s)"

definition article_at :: "char option \<Rightarrow> string \<Rightarrow> nat option" where
  "article_at prev s =
     (if word_boundary prev s then alternatives_at [''the'', ''a'', ''an''] s else None)"

text \<open>
  The substitution scans the string from the left: a match is left out and the scan
  goes on behind it, any other character is copied. \<open>skip\<close> counts the characters of the
  current match that are still to be left out; \<open>prev\<close> is the character before the
  position.
\<close>

fun sub_articles :: "nat \<Rightarrow> char option \<Rightarrow> string \<Rightarrow> string" where
  "sub_articles skip prev [] = []"
| "sub_articles skip prev (c # cs) =
     (case skip of
        Suc k \<Rightarrow> sub_articles k (Some c) cs
      | 0 \<Rightarrow>
          (case article_at prev (c # cs) of
             Some n \<Rightarrow> sub_articles (n - 1) (Some c) cs
           | None \<Rightarrow> c # sub_articles 0 (Some c) cs))"

text \<open>\<open>s.rstrip('?')\<close>.\<close>

definition rstrip_question :: "string \<Rightarrow> string" where
  "rstrip_question s = rev (dropWhile (\<lambda>c. c = CHR ''?'') (rev s))"

text \<open>The dictionary \<open>patterns\<close>, in its insertion order, by the literal each pattern starts with.\<close>

definition entity_patterns :: "string list" where
  "entity_patterns =
     [''ceo of'', ''president of'', ''prime minister of'', ''capital of'',
      ''who is'', ''what is'', ''tell me about'', ''founder of'']"

fun extract_entity_loop :: "string list \<Rightarrow> string \<Rightarrow> string option" where
  "extract_entity_loop [] query_lower = None"
| "extract_entity_loop (lit # pats) query_lower =
     (case entity_search lit query_lower of
        Some g \<Rightarrow> Some (strip (rstrip_question (strip (sub_articles 0 None (strip g)))))
      | None \<Rightarrow> extract_entity_loop pats query_lower)"

definition extract_entity :: "string \<Rightarrow> string option" where
  "extract_entity query = extract_entity_loop entity_patterns (strip (lower query))"

subsection \<open>LangChainKnowledgeBot._is_follow_up\<close>

text \<open>
  A pattern of the list is a literal anchored at the start (\<open>^he \<close>), a literal found
  anywhere (\<open>background\<close>), or \<^verbatim>\<open>what('s| is| was)? (his|her|their|its) \<close>, which
  matches exactly the strings \<open>what\<close>, then one of \<open>'s\<close>, \<open> is\<close>, \<open> was\<close> or nothing, a
  space, one of the four pronouns and a space.
\<close>

datatype follow_up_pattern = AtStart string | Anywhere string | WhatPossessive

definition what_possessive :: "string list" where
  "what_possessive =
     concat (map (\<lambda>v. map (\<lambda>p. ''what'' @ v @ '' '' @ p @ '' '')
                          [''his'', ''her'', ''their'', ''its''])
                 [[CHR 0x27, CHR ''s''], '' is'', '' was'', ''''])"

fun re_search :: "follow_up_pattern \<Rightarrow> string \<Rightarrow> bool" where
  "re_search (AtStart lit) s = prefix lit s"
| "re_search (Anywhere lit) s = contains lit s"
| "re_search WhatPossessive s = list_ex (\<lambda>w. contains w s) what_possessive"

definition follow_up_patterns :: "follow_up_pattern list" where
  "follow_up_patterns =
     [AtStart ''he '', AtStart ''she '', AtStart ''they '', AtStart ''it '',
      AtStart ''where '', AtStart ''when '', AtStart ''how '', AtStart ''why '',
      AtStart ''which '',
      WhatPossessive,
      AtStart ''tell me more'',
      AtStart ''more about'',
      AtStart ''what about'',
      Anywhere ''background'',
      Anywhere ''history'',
      Anywhere ''biography'',
      Anywhere ''longest'',
      Anywhere ''shortest'',
      Anywhere ''biggest'',
      Anywhere ''smallest'',
      Anywhere ''highest'',
      Anywhere ''lowest'',
      Anywhere ''tallest'',
      Anywhere ''among them'',
      Anywhere ''of them'']"

fun is_follow_up_loop :: "follow_up_pattern list \<Rightarrow> string \<Rightarrow> bool" where
  "is_follow_up_loop [] query_lower = False"
| "is_follow_up_loop (pat # pats) query_lower =
     (if re_search pat query_lower then True else is_follow_up_loop pats query_lower)"

definition is_follow_up :: "string \<Rightarrow> bool" where
  "is_follow_up query = is_follow_up_loop follow_up_patterns (strip (lower query))"

section \<open>The fixed messages\<close>

text \<open>
  The texts are the source's, byte for byte in UTF-8; a character that is not printable
  ASCII, a quote or an apostrophe is written by its code.
\<close>

text \<open>bot.py: \<open>KnowledgeBot._handle_greeting\<close>.\<close>

definition kb_handle_greeting :: string where
  "kb_handle_greeting =
     '' Hello! I'' @ [CHR 0x27] @ ''m your Conversational Knowledge Bot.\<newline>''
     @ ''\<newline>''
     @ ''I can:\<newline>''
     @ ''- Answer any factual question using Wikipedia\<newline>''
     @ ''- Search for information about people, places, concepts, history, science, and more\<newline>''
     @ ''- Remember our conversation for context\<newline>''
     @ ''\<newline>''
     @ ''Try asking:\<newline>''
     @ ''- '' @ [CHR 0x22] @ ''Who is the CEO of Google?'' @ [CHR 0x22] @ ''\<newline>''
     @ ''- '' @ [CHR 0x22] @ ''What is quantum computing?'' @ [CHR 0x22] @ ''\<newline>''
     @ ''- '' @ [CHR 0x22] @ ''Where is the Taj Mahal?'' @ [CHR 0x22] @ ''\<newline>''
     @ ''- '' @ [CHR 0x22] @ ''When was World War II?'' @ [CHR 0x22] @ ''\<newline>''
     @ ''- '' @ [CHR 0x22] @ ''Who painted the Mona Lisa?'' @ [CHR 0x22] @ ''\<newline>''
     @ ''- '' @ [CHR 0x22] @ ''What is the capital of Australia?'' @ [CHR 0x22] @ ''\<newline>''
     @ ''\<newline>''
     @ ''What would you like to know?''"

text \<open>bot.py: \<open>KnowledgeBot._handle_thanks\<close>.\<close>

definition kb_handle_thanks :: string where
  "kb_handle_thanks =
     '' You'' @ [CHR 0x27] @ ''re welcome! Feel free to ask more questions anytime.''"

text \<open>bot.py: \<open>KnowledgeBot._get_help\<close>.\<close>

definition kb_get_help :: string where
  "kb_get_help =
     '' **HELP - Conversational Knowledge Bot**\<newline>''
     @ ''\<newline>''
     @ ''**What I can do:**\<newline>''
     @ [CHR 0xE2, CHR 0x80, CHR 0xA2] @ '' Answer ANY factual question using Wikipedia\<newline>''
     @ [CHR 0xE2, CHR 0x80, CHR 0xA2] @ '' Search for information about people, places, events, concepts\<newline>''
     @ [CHR 0xE2, CHR 0x80, CHR 0xA2] @ '' Explain topics and provide detailed information\<newline>''
     @ [CHR 0xE2, CHR 0x80, CHR 0xA2] @ '' Provide source links for verification\<newline>''
     @ ''\<newline>''
     @ ''**Example Questions:**\<newline>''
     @ [CHR 0xE2, CHR 0x80, CHR 0xA2] @ '' Who is the CEO of OpenAI?\<newline>''
     @ [CHR 0xE2, CHR 0x80, CHR 0xA2] @ '' What is artificial intelligence?\<newline>''
     @ [CHR 0xE2, CHR 0x80, CHR 0xA2] @ '' Where is the Amazon River located?\<newline>''
     @ [CHR 0xE2, CHR 0x80, CHR 0xA2] @ '' When did World War II end?\<newline>''
     @ [CHR 0xE2, CHR 0x80, CHR 0xA2] @ '' Who discovered penicillin?\<newline>''
     @ [CHR 0xE2, CHR 0x80, CHR 0xA2] @ '' What is the population of Tokyo?\<newline>''
     @ [CHR 0xE2, CHR 0x80, CHR 0xA2] @ '' Who wrote Romeo and Juliet?\<newline>''
     @ [CHR 0xE2, CHR 0x80, CHR 0xA2] @ '' What is photosynthesis?\<newline>''
     @ [CHR 0xE2, CHR 0x80, CHR 0xA2] @ '' Where is the Great Barrier Reef?\<newline>''
     @ [CHR 0xE2, CHR 0x80, CHR 0xA2] @ '' Who is the President of France?\<newline>''
     @ ''\<newline>''
     @ ''**Tips:**\<newline>''
     @ [CHR 0xE2, CHR 0x80, CHR 0xA2] @ '' Be specific with names and topics\<newline>''
     @ [CHR 0xE2, CHR 0x80, CHR 0xA2] @ '' Use full names for people\<newline>''
     @ [CHR 0xE2, CHR 0x80, CHR 0xA2] @ '' Check spelling of proper nouns\<newline>''
     @ ''\<newline>''
     @ ''Type '' @ [CHR 0x27] @ ''quit'' @ [CHR 0x27] @ '' to exit anytime!''"

text \<open>langchain_bot.py: \<open>LangChainKnowledgeBot._handle_greeting\<close>.\<close>

definition lc_handle_greeting :: string where
  "lc_handle_greeting =
     '' Hello! I'' @ [CHR 0x27] @ ''m your LangChain-powered Conversational Knowledge Bot.\<newline>''
     @ ''\<newline>''
     @ ''I can:\<newline>''
     @ ''- Answer factual questions using Wikipedia\<newline>''
     @ ''- Remember our conversation for follow-up questions\<newline>''
     @ ''- Search for information about people, places, concepts, and more\<newline>''
     @ ''\<newline>''
     @ ''Try asking:\<newline>''
     @ ''- '' @ [CHR 0x22] @ ''Who is the CEO of Google?'' @ [CHR 0x22] @ ''\<newline>''
     @ ''- '' @ [CHR 0x22] @ ''What is quantum computing?'' @ [CHR 0x22] @ ''\<newline>''
     @ ''- '' @ [CHR 0x22] @ ''Tell me about World War 2'' @ [CHR 0x22] @ ''\<newline>''
     @ ''- '' @ [CHR 0x22] @ ''Capital of France'' @ [CHR 0x22] @ ''\<newline>''
     @ ''\<newline>''
     @ ''What would you like to know?''"

text \<open>langchain_bot.py: \<open>LangChainKnowledgeBot._handle_thanks\<close>.\<close>

definition lc_handle_thanks :: string where
  "lc_handle_thanks =
     '' You'' @ [CHR 0x27] @ ''re welcome! Feel free to ask more questions anytime.''"

text \<open>langchain_bot.py: \<open>LangChainKnowledgeBot._get_help\<close>.\<close>

definition lc_get_help :: string where
  "lc_get_help =
     '' **HELP - LangChain Knowledge Bot**\<newline>''
     @ ''\<newline>''
     @ ''**What I can do:**\<newline>''
     @ [CHR 0xC3, CHR 0xA2, CHR 0xE2, CHR 0x82, CHR 0xAC, CHR 0xC2, CHR 0xA2] @ '' Answer factual questions using Wikipedia\<newline>''
     @ [CHR 0xC3, CHR 0xA2, CHR 0xE2, CHR 0x82, CHR 0xAC, CHR 0xC2, CHR 0xA2] @ '' Remember conversation context for follow-ups\<newline>''
     @ [CHR 0xC3, CHR 0xA2, CHR 0xE2, CHR 0x82, CHR 0xAC, CHR 0xC2, CHR 0xA2] @ '' Search for information about any topic\<newline>''
     @ ''\<newline>''
     @ ''**Example Questions:**\<newline>''
     @ [CHR 0xC3, CHR 0xA2, CHR 0xE2, CHR 0x82, CHR 0xAC, CHR 0xC2, CHR 0xA2] @ '' Who is the CEO of OpenAI?\<newline>''
     @ [CHR 0xC3, CHR 0xA2, CHR 0xE2, CHR 0x82, CHR 0xAC, CHR 0xC2, CHR 0xA2] @ '' What is artificial intelligence?\<newline>''
     @ [CHR 0xC3, CHR 0xA2, CHR 0xE2, CHR 0x82, CHR 0xAC, CHR 0xC2, CHR 0xA2] @ '' Tell me about World War 2\<newline>''
     @ [CHR 0xC3, CHR 0xA2, CHR 0xE2, CHR 0x82, CHR 0xAC, CHR 0xC2, CHR 0xA2] @ '' President of United States\<newline>''
     @ [CHR 0xC3, CHR 0xA2, CHR 0xE2, CHR 0x82, CHR 0xAC, CHR 0xC2, CHR 0xA2] @ '' Capital of France\<newline>''
     @ ''\<newline>''
     @ ''**LangChain Components Used:**\<newline>''
     @ ''1. ConversationBufferMemory - Stores conversation history\<newline>''
     @ ''2. Memory.save_context() - Saves exchanges\<newline>''
     @ ''3. Memory.load_memory_variables() - Retrieves history\<newline>''
     @ ''\<newline>''
     @ ''Type '' @ [CHR 0x27] @ ''quit'' @ [CHR 0x27] @ '' to exit anytime!''"

section \<open>The Wikipedia provider\<close>

text \<open>
  The \<open>wikipedia\<close> package is the program's environment. A call of it returns a value or
  raises an exception, and what it does may depend on the network and on the calls made
  before, so a provider is a triple of functions on a state of the world, which they may
  change. The exceptions are Python's \<open>Exception\<close> instances: the two the source names,
  the \<open>IndexError\<close> of an index out of range, and any other one; each but
  \<open>IndexError\<close> carries the text that \<open>str(e)\<close> gives, and \<open>DisambiguationError\<close> its
  \<open>options\<close>.
\<close>

datatype exn =
    DisambiguationError "string list" string
  | PageError string
  | IndexError
  | Exception string

fun str_exn :: "exn \<Rightarrow> string" where
  "str_exn (DisambiguationError opts msg) = msg"
| "str_exn (PageError msg) = msg"
| "str_exn IndexError = ''list index out of range''"
| "str_exn (Exception msg) = msg"

text \<open>
  A \<open>WikipediaPage\<close>: \<open>title\<close> and \<open>url\<close> are set when the page is loaded; \<open>content\<close> is
  a property that fetches the text when it is read, and reading it may raise.
\<close>

record WikipediaPage =
  title :: string
  url :: string
  content :: "exn + string"

text \<open>
  \<open>wikipedia.search(query, results=n)\<close>, \<open>wikipedia.page(title, auto_suggest=b)\<close> and
  \<open>wikipedia.summary(title, sentences=n, auto_suggest=b)\<close>.
\<close>

record 'w wikipedia =
  wikipedia_search :: "string \<Rightarrow> nat \<Rightarrow> 'w \<Rightarrow> (exn + string list) \<times> 'w"
  wikipedia_page :: "string \<Rightarrow> bool \<Rightarrow> 'w \<Rightarrow> (exn + WikipediaPage) \<times> 'w"
  wikipedia_summary :: "string \<Rightarrow> nat \<Rightarrow> bool \<Rightarrow> 'w \<Rightarrow> (exn + string) \<times> 'w"

text \<open>The environment of a run: the state of the world and the provider calls made so far.\<close>

datatype call = SearchCall string nat | PageCall string bool | SummaryCall string nat bool

record 'w env =
  world :: 'w
  calls :: "call list"

definition do_search :: "'w wikipedia \<Rightarrow> string \<Rightarrow> nat \<Rightarrow> 'w env \<Rightarrow> (exn + string list) \<times> 'w env" where
  "do_search W q n s =
     (case wikipedia_search W q n (world s) of
        (r, w') \<Rightarrow> (r, \<lparr>world = w', calls = calls s @ [SearchCall q n]\<rparr>))"

definition do_page :: "'w wikipedia \<Rightarrow> string \<Rightarrow> bool \<Rightarrow> 'w env \<Rightarrow> (exn + WikipediaPage) \<times> 'w env" where
  "do_page W t auto_suggest s =
     (case wikipedia_page W t auto_suggest (world s) of
        (r, w') \<Rightarrow> (r, \<lparr>world = w', calls = calls s @ [PageCall t auto_suggest]\<rparr>))"

definition do_summary :: "'w wikipedia \<Rightarrow> string \<Rightarrow> nat \<Rightarrow> bool \<Rightarrow> 'w env \<Rightarrow> (exn + string) \<times> 'w env" where
  "do_summary W t n auto_suggest s =
     (case wikipedia_summary W t n auto_suggest (world s) of
        (r, w') \<Rightarrow> (r, \<lparr>world = w', calls = calls s @ [SummaryCall t n auto_suggest]\<rparr>))"

text \<open>
  The two statements \<open>page = wikipedia.page(t, ...)\<close> and
  \<open>summary = wikipedia.summary(t, sentences=n, ...)\<close>, which the source always writes
  together with the same title and the same \<open>auto_suggest\<close>: the first exception ends
  the pair.
\<close>

definition page_and_summary ::
  "'w wikipedia \<Rightarrow> string \<Rightarrow> nat \<Rightarrow> bool \<Rightarrow> 'w env \<Rightarrow> (exn + WikipediaPage \<times> string) \<times> 'w env" where
  "page_and_summary W t n auto_suggest s =
     (case do_page W t auto_suggest s of
        (Inl e, s1) \<Rightarrow> (Inl e, s1)
      | (Inr p, s1) \<Rightarrow>
          (case do_summary W t n auto_suggest s1 of
             (Inl e, s2) \<Rightarrow> (Inl e, s2)
           | (Inr summ, s2) \<Rightarrow> (Inr (p, summ), s2)))"

text \<open>\<open>s.split()\<close>: the maximal runs of characters that are not whitespace.\<close>

fun split_ws :: "string \<Rightarrow> string \<Rightarrow> string list" where
  "split_ws acc [] = (if acc = [] then [] else [acc])"
| "split_ws acc (c # cs) =
     (if isspace c then (if acc = [] then split_ws [] cs else acc # split_ws [] cs)
      else split_ws (acc @ [c]) cs)"

definition split :: "string \<Rightarrow> string list" where
  "split s = split_ws [] s"

section \<open>bot.py: KnowledgeBot\<close>

text \<open>
  The responses of \<open>_search_wikipedia\<close>. The f-string
  \<^verbatim>\<open>f"**{title}**\n\n{summary}\n\n"\<close> is followed by \<^verbatim>\<open>f" [Read more]({url})"\<close>.
\<close>

definition kb_response :: "WikipediaPage \<Rightarrow> string \<Rightarrow> string" where
  "kb_response p summ =
     ''**'' @ title p @ ''**\<newline>\<newline>'' @ summ @ ''\<newline>\<newline>''
     @ '' [Read more]('' @ url p @ '')''"

definition kb_response_disambiguation :: "WikipediaPage \<Rightarrow> string \<Rightarrow> string" where
  "kb_response_disambiguation p summ =
     ''**'' @ title p @ ''**\<newline>\<newline>'' @ summ @ ''\<newline>\<newline>''
     @ '' [Read more]('' @ url p @ '')\<newline>\<newline>''
     @ '' Multiple matches found. Showing the most relevant result.''"

text \<open>
  Strategy 3: \<open>for i in range(min(3, len(words)))\<close> searches for \<open>words[i:i+3]\<close> and
  ends at the first search that returns a list that is not empty; a search that raises
  is passed over. The result is the new value of \<open>search_results\<close>.
\<close>

fun key_terms_loop :: "'w wikipedia \<Rightarrow> string list \<Rightarrow> nat list \<Rightarrow> 'w env \<Rightarrow> string list \<times> 'w env" where
  "key_terms_loop W words [] s = ([], s)"
| "key_terms_loop W words (i # is) s =
     (case do_search W (join '' '' (take 3 (drop i words))) 10 s of
        (Inl e, s1) \<Rightarrow> key_terms_loop W words is s1
      | (Inr results, s1) \<Rightarrow>
          (if results \<noteq> [] then (results, s1) else key_terms_loop W words is s1))"

text \<open>
  The loop over \<open>e.options[:5]\<close> in the handler of \<open>DisambiguationError\<close>: the first
  option whose page and summary load is the answer (\<open>Some\<close>); \<open>None\<close> when the loop ends
  without a \<open>return\<close>.
\<close>

fun kb_options_loop :: "'w wikipedia \<Rightarrow> string list \<Rightarrow> 'w env \<Rightarrow> string option \<times> 'w env" where
  "kb_options_loop W [] s = (None, s)"
| "kb_options_loop W (option # opts) s =
     (case page_and_summary W option 5 True s of
        (Inl e, s1) \<Rightarrow> kb_options_loop W opts s1
      | (Inr (p, summ), s1) \<Rightarrow> (Some (kb_response_disambiguation p summ), s1))"

text \<open>The loop over \<open>search_results[:5]\<close>.\<close>

fun kb_results_loop :: "'w wikipedia \<Rightarrow> string list \<Rightarrow> 'w env \<Rightarrow> string option \<times> 'w env" where
  "kb_results_loop W [] s = (None, s)"
| "kb_results_loop W (result # results) s =
     (case page_and_summary W result 5 True s of
        (Inr (p, summ), s1) \<Rightarrow> (Some (kb_response p summ), s1)
      | (Inl (DisambiguationError opts msg), s1) \<Rightarrow>
          (case kb_options_loop W (take 5 opts) s1 of
             (Some response, s2) \<Rightarrow> (Some response, s2)
           | (None, s2) \<Rightarrow> kb_results_loop W results s2)
      | (Inl e, s1) \<Rightarrow> kb_results_loop W results s1)"

text \<open>The body of the outer \<open>try\<close> of \<open>_search_wikipedia\<close>.\<close>

definition kb_search_wikipedia_body :: "'w wikipedia \<Rightarrow> string \<Rightarrow> 'w env \<Rightarrow> (exn + string) \<times> 'w env" where
  "kb_search_wikipedia_body W query s =
     (let clean_query = kb_clean_query query in
      if clean_query = [] then (Inr ''Please provide a specific topic to search for.'', s)
      else
        (case (case do_search W clean_query 10 s of
                 (Inl e, s1) \<Rightarrow> ([], s1)
               | (Inr results, s1) \<Rightarrow> (results, s1)) of
           (search_results1, s1) \<Rightarrow>
        (case (if search_results1 = []
               then (case do_search W query 10 s1 of
                       (Inl e, s2) \<Rightarrow> (search_results1, s2)
                     | (Inr results, s2) \<Rightarrow> (results, s2))
               else (search_results1, s1)) of
           (search_results2, s2) \<Rightarrow>
        (case (if search_results2 = []
               then (let words = split query in
                     if 2 \<le> length words
                     then key_terms_loop W words [0 ..< min 3 (length words)] s2
                     else (search_results2, s2))
               else (search_results2, s2)) of
           (search_results, s3) \<Rightarrow>
        (if search_results = []
         then (Inr (''Could not find information about '' @ [CHR 0x27] @ query @ [CHR 0x27]
                    @ ''.\<newline>\<newline> Try rephrasing your question or checking the spelling.''), s3)
         else
           (case kb_results_loop W (take 5 search_results) s3 of
              (Some response, s4) \<Rightarrow> (Inr response, s4)
            | (None, s4) \<Rightarrow>
                (Inr ('' Could not find information about '' @ [CHR 0x27] @ query @ [CHR 0x27]
                      @ ''.\<newline>\<newline> Try being more specific in your question.''), s4)))))))"

text \<open>\<open>_search_wikipedia\<close>: the body inside \<open>try\<close>, and \<open>except Exception as e\<close>.\<close>

definition kb_search_wikipedia :: "'w wikipedia \<Rightarrow> string \<Rightarrow> 'w env \<Rightarrow> (exn + string) \<times> 'w env" where
  "kb_search_wikipedia W query s =
     (case kb_search_wikipedia_body W query s of
        (Inl e, s') \<Rightarrow> (Inr ('' Error: '' @ str_exn e @ ''. Please try again.''), s')
      | (Inr response, s') \<Rightarrow> (Inr response, s'))"

text \<open>
  \<open>process_query\<close>. The state is the bot's memory and the environment; \<open>now\<close> is the
  clock's reading that \<open>save_context\<close> stores.
\<close>

definition kb_process_query ::
  "'w wikipedia \<Rightarrow> string \<Rightarrow> string \<Rightarrow> ConversationMemory \<times> 'w env
   \<Rightarrow> (exn + string) \<times> ConversationMemory \<times> 'w env" where
  "kb_process_query W query0 now st =
     (case st of (memory, s) \<Rightarrow>
      (let query = strip query0 in
       if query = [] then (Inr ''Please ask a question.'', memory, s)
       else if lower query \<in> set [''hi'', ''hello'', ''hey''] then (Inr kb_handle_greeting, memory, s)
       else if lower query \<in> set [''help'', ''?''] then (Inr kb_get_help, memory, s)
       else if contains ''thank'' (lower query) then (Inr kb_handle_thanks, memory, s)
       else
         (case kb_search_wikipedia W query s of
            (Inl e, s') \<Rightarrow> (Inl e, memory, s')
          | (Inr response, s') \<Rightarrow> (Inr response, save_context memory query response now, s'))))"

text \<open>A provider that is off line: every call raises and leaves the world as it is.\<close>

definition offline :: "unit wikipedia" where
  "offline =
     \<lparr>wikipedia_search = (\<lambda>q n w. (Inl (Exception ''offline''), w)),
      wikipedia_page = (\<lambda>t a w. (Inl (Exception ''offline''), w)),
      wikipedia_summary = (\<lambda>t n a w. (Inl (Exception ''offline''), w))\<rparr>"

definition env0 :: "unit env" where
  "env0 = \<lparr>world = (), calls = []\<rparr>"

section \<open>langchain_bot.py: LangChainKnowledgeBot\<close>

subsection \<open>More string operations\<close>

text \<open>
  \<open>s.replace(old, new)\<close> for a pattern \<open>old\<close> that is not empty: the occurrences are
  replaced from the left, and the scan goes on behind each; \<open>skip\<close> counts the
  characters of the current occurrence that are still to be left out.
\<close>

fun replace_from :: "nat \<Rightarrow> string \<Rightarrow> string \<Rightarrow> string \<Rightarrow> string" where
  "replace_from skip old new [] = []"
| "replace_from skip old new (c # cs) =
     (case skip of
        Suc k \<Rightarrow> replace_from k old new cs
      | 0 \<Rightarrow>
          (if prefix old (c # cs) then new @ replace_from (length old - 1) old new cs
           else c # replace_from 0 old new cs))"

definition replace :: "string \<Rightarrow> string \<Rightarrow> string \<Rightarrow> string" where
  "replace old new s = replace_from 0 old new s"

text \<open>\<open>s.split('\n')\<close>: the pieces between the line feeds, the empty ones too.\<close>

fun split_lines_acc :: "string \<Rightarrow> string \<Rightarrow> string list" where
  "split_lines_acc acc [] = [acc]"
| "split_lines_acc acc (c # cs) =
     (if c = CHR 0x0A then acc # split_lines_acc [] cs else split_lines_acc (acc @ [c]) cs)"

definition split_lines :: "string \<Rightarrow> string list" where
  "split_lines s = split_lines_acc [] s"

text \<open>
  \<^verbatim>\<open>re.split(r'[.!?]+', s)\<close>: the pieces between the maximal runs of the three
  characters, the empty ones too. \<open>in_run\<close> says that the character before the position
  belongs to a run.
\<close>

definition is_sentence_end :: "char \<Rightarrow> bool" where
  "is_sentence_end c = (c = CHR ''.'' \<or> c = CHR ''!'' \<or> c = CHR ''?'')"

fun re_split_acc :: "bool \<Rightarrow> string \<Rightarrow> string \<Rightarrow> string list" where
  "re_split_acc in_run acc [] = [acc]"
| "re_split_acc in_run acc (c # cs) =
     (if is_sentence_end c
      then (if in_run then re_split_acc True acc cs else acc # re_split_acc True [] cs)
      else re_split_acc False (acc @ [c]) cs)"

definition re_split :: "string \<Rightarrow> string list" where
  "re_split s = re_split_acc False [] s"

text \<open>
  \<^verbatim>\<open>re.search(r'\*\*(.+?)\*\*', s)\<close>, giving \<open>group(1)\<close>: after two stars the group takes
  one character, then one more for as long as two stars do not follow it.
\<close>

fun lazy_until_stars :: "string \<Rightarrow> string \<Rightarrow> string option" where
  "lazy_until_stars acc [] = None"
| "lazy_until_stars acc (c # cs) =
     (if c = CHR 0x0A then None
      else if prefix ''**'' cs then Some (acc @ [c])
      else lazy_until_stars (acc @ [c]) cs)"

fun bold_search :: "string \<Rightarrow> string option" where
  "bold_search [] = None"
| "bold_search (c # cs) =
     (if prefix ''**'' (c # cs)
      then (case lazy_until_stars [] (drop 2 (c # cs)) of
              Some g \<Rightarrow> Some g
            | None \<Rightarrow> bold_search cs)
      else bold_search cs)"

text \<open>\<open>c.isupper()\<close> for one character.\<close>

definition isupper :: "char \<Rightarrow> bool" where
  "isupper c = (c \<in> set ''ABCDEFGHIJKLMNOPQRSTUVWXYZ'')"

text \<open>\<open>any(w in s for w in ws)\<close>.\<close>

definition any_in :: "string list \<Rightarrow> string \<Rightarrow> bool" where
  "any_in ws s = list_ex (\<lambda>w. contains w s) ws"

subsection \<open>The state of the bot\<close>

text \<open>
  \<open>memory\<close> is the history string of the class \<open>SimpleMemory\<close> of the source, which
  stands in for LangChain's \<open>ConversationBufferMemory\<close>; \<open>last_entity\<close> is \<open>None\<close> or a
  string.
\<close>

record LangChainKnowledgeBot =
  memory :: string
  last_entity :: "string option"

text \<open>\<open>SimpleMemory.save_context({"input": q}, {"response": r})\<close>.\<close>

definition simple_save_context :: "LangChainKnowledgeBot \<Rightarrow> string \<Rightarrow> string \<Rightarrow> LangChainKnowledgeBot" where
  "simple_save_context self input_text response_text =
     self\<lparr>memory := memory self @ ''Human: '' @ input_text @ ''\<newline>AI: '' @ response_text @ ''\<newline>''\<rparr>"

subsection \<open>_extract_entity_from_response\<close>

text \<open>
  The loop over \<open>enumerate(words)\<close>. \<open>word[0]\<close> raises \<open>IndexError\<close> on an empty word.
\<close>

fun capitalized_pair_loop :: "string list \<Rightarrow> exn + string option" where
  "capitalized_pair_loop [] = Inr None"
| "capitalized_pair_loop (word # rest) =
     (case word of
        [] \<Rightarrow> Inl IndexError
      | c # _ \<Rightarrow>
          (if isupper c \<and> 2 < length word
           then (case rest of
                   [] \<Rightarrow> capitalized_pair_loop rest
                 | next_word # _ \<Rightarrow>
                     (case next_word of
                        [] \<Rightarrow> Inl IndexError
                      | d # _ \<Rightarrow>
                          (if isupper d
                           then (let potential_name = word @ '' '' @ next_word in
                                 if 5 < length potential_name
                                    \<and> \<not> any_in [''page'', ''summary'', ''wikipedia'']
                                             (lower potential_name)
                                 then Inr (Some potential_name)
                                 else capitalized_pair_loop rest)
                           else capitalized_pair_loop rest)))
           else capitalized_pair_loop rest))"

definition extract_entity_from_response :: "string \<Rightarrow> exn + string option" where
  "extract_entity_from_response response =
     (case (case bold_search response of
              None \<Rightarrow> None
            | Some g \<Rightarrow>
                (let bold_title = strip g in
                 if \<not> any_in [''page'', ''summary'', ''wikipedia'', ''list of''] (lower bold_title)
                 then Some bold_title else None)) of
        Some bold_title \<Rightarrow> Inr (Some bold_title)
      | None \<Rightarrow> capitalized_pair_loop (split response))"

subsection \<open>_extract_last_topic_from_history\<close>

text \<open>The second loop: the last \<open>Human:\<close> line that gives an entity or is long enough.\<close>

fun human_lines_loop :: "string list \<Rightarrow> string" where
  "human_lines_loop [] = []"
| "human_lines_loop (line # lines) =
     (if prefix ''Human:'' line
      then (let human_question = strip (replace ''Human:'' [] line) in
            case extract_entity human_question of
              Some entity \<Rightarrow>
                (if entity \<noteq> [] then entity
                 else if 3 < length human_question then human_question
                 else human_lines_loop lines)
            | None \<Rightarrow>
                (if 3 < length human_question then human_question
                 else human_lines_loop lines))
      else human_lines_loop lines)"

definition extract_last_topic_from_history :: "string \<Rightarrow> string" where
  "extract_last_topic_from_history hist =
     (if hist = [] then []
      else
        (let lines = split_lines hist;
             last_ai_response = (case List.find (prefix ''AI:'') (rev lines) of
                                   None \<Rightarrow> []
                                 | Some line \<Rightarrow> line);
             topic = (if last_ai_response \<noteq> []
                      then (case bold_search last_ai_response of
                              None \<Rightarrow> None
                            | Some g \<Rightarrow>
                                (if \<not> any_in [''page'', ''summary'', ''wikipedia'']
                                          (lower (strip g))
                                 then Some (strip g) else None))
                      else None)
         in case topic of
              Some t \<Rightarrow> t
            | None \<Rightarrow> human_lines_loop (rev lines)))"

subsection \<open>_search_wikipedia_direct\<close>

text \<open>
  The responses: \<^verbatim>\<open>f"**{page.title}**\n\n{summary}\n\n"\<close> followed by the link, which
  some places of the source write with a space before it and some without.
\<close>

definition lc_response :: "WikipediaPage \<Rightarrow> string \<Rightarrow> string" where
  "lc_response p summ =
     ''**'' @ title p @ ''**\<newline>\<newline>'' @ summ @ ''\<newline>\<newline>''
     @ ''[Read more]('' @ url p @ '')''"

definition lc_response_sp :: "WikipediaPage \<Rightarrow> string \<Rightarrow> string" where
  "lc_response_sp p summ =
     ''**'' @ title p @ ''**\<newline>\<newline>'' @ summ @ ''\<newline>\<newline>''
     @ '' [Read more]('' @ url p @ '')''"

definition lc_response_company :: "WikipediaPage \<Rightarrow> string \<Rightarrow> string" where
  "lc_response_company p summ =
     ''**'' @ title p @ ''**\<newline>\<newline>'' @ summ @ ''\<newline>\<newline>''
     @ '' [Read more]('' @ url p @ '')\<newline>\<newline>''
     @ '' CEO information may be available in a separate Wikipedia page. Try searching for the CEO''
     @ [CHR 0x27] @ ''s name directly.''"

definition lc_response_multiple :: "WikipediaPage \<Rightarrow> string \<Rightarrow> string" where
  "lc_response_multiple p summ =
     ''**'' @ title p @ ''**\<newline>\<newline>'' @ summ @ ''\<newline>\<newline>''
     @ '' [Read more]('' @ url p @ '')\<newline>\<newline>''
     @ '' Multiple matches found.''"

definition lc_not_found :: "string \<Rightarrow> string" where
  "lc_not_found clean_query =
     '' Could not find information about '' @ [CHR 0x27] @ clean_query @ [CHR 0x27]
     @ ''.\<newline>\<newline> Try rephrasing your question.''"

definition search_attempts :: "string \<Rightarrow> string list" where
  "search_attempts company_name =
     [company_name @ '' CEO'',
      ''CEO of '' @ company_name,
      company_name @ '' chief executive officer'',
      ''List of '' @ company_name @ '' executives'',
      ''Current '' @ company_name @ '' CEO'',
      company_name @ '' leadership'']"

definition general_searches :: "string \<Rightarrow> string list" where
  "general_searches company_name =
     [company_name @ '' chief executive officer'',
      company_name @ '' CEO biography'',
      company_name @ '' leadership team'',
      ''List of '' @ company_name @ '' executives'']"

text \<open>The indicator lists of the three CEO loops, and the one for page titles.\<close>

definition direct_indicators :: "string list" where
  "direct_indicators =
     [''chief executive officer'', ''ceo'', ''executive'', ''born'', ''appointed'',
      ''sundar pichai'', ''tim cook'', ''satya nadella'', ''mark zuckerberg'']"

definition ceo_indicators :: "string list" where
  "ceo_indicators =
     [''chief executive officer'', ''ceo'', ''executive'', ''born'', ''appointed'',
      ''sundar pichai'', ''tim cook'', ''satya nadella'', ''mark zuckerberg'',
      ''business executive'', ''american business'', ''indian business'']"

definition ceo_indicators_general :: "string list" where
  "ceo_indicators_general =
     [''chief executive officer'', ''ceo'', ''executive'', ''born'', ''appointed'',
      ''business executive'', ''american business'', ''indian business'']"

definition person_indicators :: "string list" where
  "person_indicators = [''born'', ''businessman'', ''executive'', ''ceo'']"

text \<open>The first loop: a direct page lookup for each search term.\<close>

fun ceo_direct_loop :: "'w wikipedia \<Rightarrow> string list \<Rightarrow> 'w env \<Rightarrow> string option \<times> 'w env" where
  "ceo_direct_loop W [] s = (None, s)"
| "ceo_direct_loop W (search_term # terms) s =
     (case page_and_summary W search_term 8 False s of
        (Inl e, s1) \<Rightarrow> ceo_direct_loop W terms s1
      | (Inr (p, summ), s1) \<Rightarrow>
          (if any_in direct_indicators (lower summ) then (Some (lc_response_sp p summ), s1)
           else ceo_direct_loop W terms s1))"

text \<open>
  The loop \<open>for result in search_results\<close> of the second and third CEO loops, which
  differ in the number of sentences, the indicators and the response.
\<close>

fun ceo_results_loop ::
  "'w wikipedia \<Rightarrow> string \<Rightarrow> nat \<Rightarrow> string list \<Rightarrow> (WikipediaPage \<Rightarrow> string \<Rightarrow> string)
   \<Rightarrow> string list \<Rightarrow> 'w env \<Rightarrow> string option \<times> 'w env" where
  "ceo_results_loop W company_name n indicators respond [] s = (None, s)"
| "ceo_results_loop W company_name n indicators respond (result # results) s =
     (case page_and_summary W result n False s of
        (Inl e, s1) \<Rightarrow> ceo_results_loop W company_name n indicators respond results s1
      | (Inr (p, summ), s1) \<Rightarrow>
          (let summary_lower = lower summ; page_title_lower = lower (title p) in
           if (any_in indicators summary_lower \<or> any_in person_indicators page_title_lower)
              \<and> (\<not> contains (lower company_name) page_title_lower
                  \<or> contains ''ceo'' (lower page_title_lower))
           then (Some (respond p summ), s1)
           else ceo_results_loop W company_name n indicators respond results s1))"

text \<open>The second loop: a search that raises is passed over.\<close>

fun ceo_search_loop :: "'w wikipedia \<Rightarrow> string \<Rightarrow> string list \<Rightarrow> 'w env \<Rightarrow> string option \<times> 'w env" where
  "ceo_search_loop W company_name [] s = (None, s)"
| "ceo_search_loop W company_name (search_term # terms) s =
     (case do_search W search_term 10 s of
        (Inl e, s1) \<Rightarrow> ceo_search_loop W company_name terms s1
      | (Inr search_results, s1) \<Rightarrow>
          (case ceo_results_loop W company_name 6 ceo_indicators lc_response_sp search_results s1 of
             (Some response, s2) \<Rightarrow> (Some response, s2)
           | (None, s2) \<Rightarrow> ceo_search_loop W company_name terms s2))"

text \<open>The third loop stands inside one \<open>try\<close>: a search that raises ends the loop.\<close>

fun ceo_general_loop :: "'w wikipedia \<Rightarrow> string \<Rightarrow> string list \<Rightarrow> 'w env \<Rightarrow> string option \<times> 'w env" where
  "ceo_general_loop W company_name [] s = (None, s)"
| "ceo_general_loop W company_name (search_term # terms) s =
     (case do_search W search_term 5 s of
        (Inl e, s1) \<Rightarrow> (None, s1)
      | (Inr search_results, s1) \<Rightarrow>
          (case ceo_results_loop W company_name 8 ceo_indicators_general lc_response search_results s1 of
             (Some response, s2) \<Rightarrow> (Some response, s2)
           | (None, s2) \<Rightarrow> ceo_general_loop W company_name terms s2))"

text \<open>
  The branch \<open>if "CEO of" in clean_query\<close>: \<open>Inr (Some r)\<close> is \<open>return r\<close>, \<open>Inr None\<close> is
  the end of the branch without a \<open>return\<close>, and \<open>Inl e\<close> is an exception of the last
  lookup that is neither \<open>PageError\<close> nor \<open>DisambiguationError\<close>.
\<close>

definition ceo_branch :: "'w wikipedia \<Rightarrow> string \<Rightarrow> 'w env \<Rightarrow> (exn + string option) \<times> 'w env" where
  "ceo_branch W clean_query s =
     (let company_name = strip (replace ''CEO of'' [] clean_query) in
      case ceo_direct_loop W (search_attempts company_name) s of
        (Some response, s1) \<Rightarrow> (Inr (Some response), s1)
      | (None, s1) \<Rightarrow>
     (case ceo_search_loop W company_name (search_attempts company_name) s1 of
        (Some response, s2) \<Rightarrow> (Inr (Some response), s2)
      | (None, s2) \<Rightarrow>
     (case ceo_general_loop W company_name (general_searches company_name) s2 of
        (Some response, s3) \<Rightarrow> (Inr (Some response), s3)
      | (None, s3) \<Rightarrow>
     (case page_and_summary W company_name 10 False s3 of
        (Inr (p, summ), s4) \<Rightarrow> (Inr (Some (lc_response_company p summ)), s4)
      | (Inl (PageError msg), s4) \<Rightarrow> (Inr None, s4)
      | (Inl (DisambiguationError opts msg), s4) \<Rightarrow> (Inr None, s4)
      | (Inl e, s4) \<Rightarrow> (Inl e, s4)))))"

text \<open>The loop over \<open>e.options[:5]\<close> of the general lookup.\<close>

fun lc_options_loop :: "'w wikipedia \<Rightarrow> string \<Rightarrow> string list \<Rightarrow> 'w env \<Rightarrow> string option \<times> 'w env" where
  "lc_options_loop W clean_query [] s = (None, s)"
| "lc_options_loop W clean_query (option # opts) s =
     (if contains (lower clean_query) (lower option) \<or> contains (lower option) (lower clean_query)
      then (case page_and_summary W option 5 True s of
              (Inl e, s1) \<Rightarrow> lc_options_loop W clean_query opts s1
            | (Inr (p, summ), s1) \<Rightarrow> (Some (lc_response_multiple p summ), s1))
      else lc_options_loop W clean_query opts s)"

text \<open>The loop over \<open>search_results[:5]\<close> in the handler of \<open>PageError\<close>.\<close>

fun lc_results_loop :: "'w wikipedia \<Rightarrow> string \<Rightarrow> string list \<Rightarrow> 'w env \<Rightarrow> string option \<times> 'w env" where
  "lc_results_loop W clean_query [] s = (None, s)"
| "lc_results_loop W clean_query (result # results) s =
     (if contains (lower clean_query) (lower result)
      then (case page_and_summary W result 5 True s of
              (Inl e, s1) \<Rightarrow> lc_results_loop W clean_query results s1
            | (Inr (p, summ), s1) \<Rightarrow> (Some (lc_response_sp p summ), s1))
      else lc_results_loop W clean_query results s)"

text \<open>
  The general lookup with its two handlers, up to the last \<open>return\<close> of the \<open>try\<close> body.
\<close>

definition general_lookup :: "'w wikipedia \<Rightarrow> string \<Rightarrow> 'w env \<Rightarrow> (exn + string) \<times> 'w env" where
  "general_lookup W clean_query s =
     (case page_and_summary W clean_query 5 False s of
        (Inr (p, summ), s1) \<Rightarrow> (Inr (lc_response p summ), s1)
      | (Inl (DisambiguationError opts msg), s1) \<Rightarrow>
          (case lc_options_loop W clean_query (take 5 opts) s1 of
             (Some response, s2) \<Rightarrow> (Inr response, s2)
           | (None, s2) \<Rightarrow>
               (case (case opts of
                        [] \<Rightarrow> (Inl IndexError, s2)
                      | option # _ \<Rightarrow> page_and_summary W option 5 True s2) of
                  (Inr (p, summ), s3) \<Rightarrow> (Inr (lc_response p summ), s3)
                | (Inl e, s3) \<Rightarrow> (Inr (lc_not_found clean_query), s3)))
      | (Inl (PageError msg), s1) \<Rightarrow>
          (case do_search W clean_query 10 s1 of
             (Inl e, s2) \<Rightarrow> (Inr (lc_not_found clean_query), s2)
           | (Inr search_results, s2) \<Rightarrow>
               (case lc_results_loop W clean_query (take 5 search_results) s2 of
                  (Some response, s3) \<Rightarrow> (Inr response, s3)
                | (None, s3) \<Rightarrow>
                    (case search_results of
                       [] \<Rightarrow> (Inr (lc_not_found clean_query), s3)
                     | first # _ \<Rightarrow>
                         (case page_and_summary W first 5 True s3 of
                            (Inr (p, summ), s4) \<Rightarrow> (Inr (lc_response_sp p summ), s4)
                          | (Inl e, s4) \<Rightarrow> (Inr (lc_not_found clean_query), s4)))))
      | (Inl e, s1) \<Rightarrow> (Inl e, s1))"

text \<open>The body of the outer \<open>try\<close> of \<open>_search_wikipedia_direct\<close>.\<close>

definition search_wikipedia_direct_body :: "'w wikipedia \<Rightarrow> string \<Rightarrow> 'w env \<Rightarrow> (exn + string) \<times> 'w env" where
  "search_wikipedia_direct_body W query s =
     (let clean_query = lc_clean_query query in
      if clean_query = [] then (Inr ''Please provide a specific topic.'', s)
      else if contains ''CEO of'' clean_query
      then (case ceo_branch W clean_query s of
              (Inl e, s1) \<Rightarrow> (Inl e, s1)
            | (Inr (Some response), s1) \<Rightarrow> (Inr response, s1)
            | (Inr None, s1) \<Rightarrow> general_lookup W clean_query s1)
      else general_lookup W clean_query s)"

text \<open>\<open>_search_wikipedia_direct\<close>: the body inside \<open>try\<close>, and \<open>except Exception as e\<close>.\<close>

definition search_wikipedia_direct :: "'w wikipedia \<Rightarrow> string \<Rightarrow> 'w env \<Rightarrow> (exn + string) \<times> 'w env" where
  "search_wikipedia_direct W query s =
     (case search_wikipedia_direct_body W query s of
        (Inl e, s') \<Rightarrow> (Inr ('' Error searching Wikipedia: '' @ str_exn e), s')
      | (Inr response, s') \<Rightarrow> (Inr response, s'))"

subsection \<open>_extract_education_info\<close>

definition education_keywords :: "string list" where
  "education_keywords =
     [''education'', ''university'', ''college'', ''school'', ''graduated'', ''degree'',
      ''bachelor'', ''master'', ''phd'', ''studied'', ''attended'', ''alumni'', ''mba'']"

definition fallback_keywords :: "string list" where
  "fallback_keywords =
     [''education'', ''university'', ''college'', ''school'', ''graduated'', ''degree'',
      ''bachelor'', ''master'', ''phd'', ''studied'', ''attended'', ''alumni'']"

text \<open>
  The loop that fills \<open>education_sentences\<close>: each piece of the split text is stripped
  and kept when it is not empty and its lower-cased form contains a keyword.
\<close>

definition education_sentences :: "string list \<Rightarrow> string \<Rightarrow> string list" where
  "education_sentences keywords text =
     filter (\<lambda>sentence. sentence \<noteq> [] \<and> any_in keywords (lower sentence))
            (map strip (re_split text))"

definition education_header :: "string \<Rightarrow> string" where
  "education_header entity_name = ''**'' @ entity_name @ '' - Education**\<newline>\<newline>''"

definition education_footer :: "WikipediaPage \<Rightarrow> string" where
  "education_footer p = ''\<newline>\<newline> [Read more on Wikipedia]('' @ url p @ '')''"

definition no_education_details :: "string \<Rightarrow> WikipediaPage \<Rightarrow> string" where
  "no_education_details entity_name p =
     ''**'' @ entity_name @ '' - Education**\<newline>\<newline>I couldn'' @ [CHR 0x27]
     @ ''t find specific education details in the Wikipedia article. The biography mentions his career but not detailed educational background.\<newline>\<newline>''
     @ [CHR 0xC3, CHR 0xB0, CHR 0xC5, CHR 0xB8, CHR 0xE2, CHR 0x80, CHR 0x9D, CHR 0xE2, CHR 0x80, CHR 0x94]
     @ '' [Read full biography]('' @ url p @ '')''"

text \<open>The response built from the full article: the body of the \<open>try\<close>.\<close>

definition education_from_article :: "string \<Rightarrow> WikipediaPage \<Rightarrow> string \<Rightarrow> string" where
  "education_from_article entity_name p full_content =
     (let found = education_sentences education_keywords full_content in
      if found \<noteq> []
      then education_header entity_name
           @ join ''. '' (take 4 found)
           @ (if 4 < length found then ''...'' else [])
           @ education_footer p
      else no_education_details entity_name p)"

text \<open>The handler \<open>except Exception\<close>: the extraction from the response given.\<close>

definition education_fallback :: "string \<Rightarrow> string \<Rightarrow> string" where
  "education_fallback main_page_response entity_name =
     (let found = education_sentences fallback_keywords main_page_response in
      if found \<noteq> []
      then education_header entity_name @ join ''. '' (take 3 found)
      else ''**'' @ entity_name @ ''**\<newline>\<newline>'' @ main_page_response @ ''\<newline>\<newline>''
           @ [CHR 0xC3, CHR 0xB0, CHR 0xC5, CHR 0xB8, CHR 0xE2, CHR 0x80, CHR 0x9C, CHR 0xC5, CHR 0xA1]
           @ '' Education details may be found in the full biography above.'')"

definition extract_education_info ::
  "'w wikipedia \<Rightarrow> string \<Rightarrow> string \<Rightarrow> 'w env \<Rightarrow> (exn + string) \<times> 'w env" where
  "extract_education_info W main_page_response entity_name s =
     (case (case do_page W entity_name False s of
              (Inl e, s1) \<Rightarrow> (Inl e, s1)
            | (Inr p, s1) \<Rightarrow>
                (case content p of
                   Inl e \<Rightarrow> (Inl e, s1)
                 | Inr full_content \<Rightarrow> (Inr (education_from_article entity_name p full_content), s1))) of
        (Inr response, s1) \<Rightarrow> (Inr response, s1)
      | (Inl e, s1) \<Rightarrow> (Inr (education_fallback main_page_response entity_name), s1))"

subsection \<open>_handle_follow_up\<close>

text \<open>The truth value of a value that is \<open>None\<close> or a string.\<close>

definition truthy :: "string option \<Rightarrow> bool" where
  "truthy x = (case x of None \<Rightarrow> False | Some v \<Rightarrow> v \<noteq> [])"

definition handle_follow_up ::
  "'w wikipedia \<Rightarrow> LangChainKnowledgeBot \<Rightarrow> string \<Rightarrow> 'w env \<Rightarrow> (exn + string) \<times> 'w env" where
  "handle_follow_up W self query s =
     (let query_lower = strip (lower query);
          last_topic = (case last_entity self of
                          None \<Rightarrow> extract_last_topic_from_history (memory self)
                        | Some e \<Rightarrow>
                            (if e \<noteq> [] then e
                             else extract_last_topic_from_history (memory self)))
      in
      if last_topic = [] then (Inr [], s)
      else if any_in [''study'', ''education'', ''college'', ''university''] query_lower
      then (case search_wikipedia_direct W (last_topic @ '' education'') s of
              (Inl e, s1) \<Rightarrow> (Inl e, s1)
            | (Inr education_result, s1) \<Rightarrow>
                (if education_result \<noteq> [] \<and> \<not> contains ''Could not find'' education_result
                 then (if contains (lower last_topic) (lower education_result)
                          \<and> \<not> contains ''education'' (lower education_result)
                       then extract_education_info W education_result last_topic s1
                       else (Inr education_result, s1))
                 else (case search_wikipedia_direct W last_topic s1 of
                         (Inl e, s2) \<Rightarrow> (Inl e, s2)
                       | (Inr main_page, s2) \<Rightarrow>
                           extract_education_info W main_page last_topic s2)))
      else if any_in [''party'', ''political'', ''belongs''] query_lower
      then search_wikipedia_direct W (last_topic @ '' political party'') s
      else if any_in [''born'', ''birthplace'', ''from''] query_lower
      then search_wikipedia_direct W (last_topic @ '' birthplace'') s
      else if any_in [''profession'', ''work'', ''career''] query_lower
      then search_wikipedia_direct W (last_topic @ '' profession'') s
      else if any_in [''where'', ''when'', ''how'', ''what''] query_lower
      then search_wikipedia_direct W (last_topic @ '' '' @ query) s
      else search_wikipedia_direct W last_topic s)"

subsection \<open>process_query\<close>

text \<open>
  The part of \<open>process_query\<close> behind the follow-up check: the search query is built
  from the entity, the answer is looked up, \<open>last_entity\<close> is set from the response and
  the exchange is saved.
\<close>

definition answer_query ::
  "'w wikipedia \<Rightarrow> LangChainKnowledgeBot \<Rightarrow> string \<Rightarrow> 'w env
   \<Rightarrow> (exn + string) \<times> LangChainKnowledgeBot \<times> 'w env" where
  "answer_query W self query s =
     (let entity = extract_entity query;
          self1 = (if truthy entity \<and> \<not> is_follow_up query
                   then self\<lparr>last_entity := None\<rparr> else self);
          search_query =
            (case entity of
               None \<Rightarrow> query
             | Some e \<Rightarrow>
                 (if e = [] then query
                  else if contains ''ceo'' (lower query) then ''CEO of '' @ e
                  else if contains ''president'' (lower query) then ''President of '' @ e
                  else if contains ''capital'' (lower query) then e @ '' (capital)''
                  else e))
      in
      case search_wikipedia_direct W search_query s of
        (Inl e, s1) \<Rightarrow> (Inl e, self1, s1)
      | (Inr response, s1) \<Rightarrow>
          (case extract_entity_from_response response of
             Inl e \<Rightarrow> (Inl e, self1, s1)
           | Inr extracted_entity \<Rightarrow>
               (let self2 = (if truthy extracted_entity
                             then self1\<lparr>last_entity := extracted_entity\<rparr>
                             else if truthy entity then self1\<lparr>last_entity := entity\<rparr>
                             else self1)
                in (Inr response, simple_save_context self2 query response, s1))))"

definition lc_process_query ::
  "'w wikipedia \<Rightarrow> string \<Rightarrow> LangChainKnowledgeBot \<times> 'w env
   \<Rightarrow> (exn + string) \<times> LangChainKnowledgeBot \<times> 'w env" where
  "lc_process_query W query0 st =
     (case st of (self, s) \<Rightarrow>
      (let query = strip query0 in
       if query = [] then (Inr ''Please ask a question.'', self, s)
       else if lower query \<in> set [''hi'', ''hello'', ''hey'']
       then (Inr lc_handle_greeting, simple_save_context self query lc_handle_greeting, s)
       else if lower query \<in> set [''help'', ''?'']
       then (Inr lc_get_help, simple_save_context self query lc_get_help, s)
       else if contains ''thank'' (lower query)
       then (Inr lc_handle_thanks, simple_save_context self query lc_handle_thanks, s)
       else if is_follow_up query
       then (case handle_follow_up W self query s of
               (Inl e, s1) \<Rightarrow> (Inl e, self, s1)
             | (Inr follow_up_response, s1) \<Rightarrow>
                 (if follow_up_response \<noteq> [] \<and> \<not> contains ''Could not find'' follow_up_response
                  then (Inr follow_up_response,
                        simple_save_context self query follow_up_response, s1)
                  else answer_query W self query s1))
       else answer_query W self query s))"

text \<open>
  A provider for one article: every page lookup gives the page \<open>Ada Lovelace\<close> with its
  text, every summary a fixed sentence, every search the one title; the world counts
  the calls.
\<close>

definition ada_page :: WikipediaPage where
  "ada_page =
     \<lparr>title = ''Ada Lovelace'',
      url = ''https://en.wikipedia.org/wiki/Ada_Lovelace'',
      content = Inr (''Ada Lovelace was a mathematician. Her education was private! ''
                     @ ''She studied with tutors. She met Babbage in 1833. ''
                     @ ''She attended lectures. Did she earn a degree? ''
                     @ ''The University of London admitted her tutor.'')\<rparr>"

definition ada_wikipedia :: "nat wikipedia" where
  "ada_wikipedia =
     \<lparr>wikipedia_search = (\<lambda>q n w. (Inr [''Ada Lovelace''], Suc w)),
      wikipedia_page = (\<lambda>t a w. (Inr ada_page, Suc w)),
      wikipedia_summary = (\<lambda>t n a w. (Inr ''Ada Lovelace was a mathematician.'', Suc w))\<rparr>"

section \<open>Facts about the string primitives\<close>

lemma contains_iff_sublist: "contains p s \<longleftrightarrow> sublist p s"
  by (induction s) (auto simp: sublist_Cons_right)

lemma length_lower [simp]: "length (lower s) = length s"
  by (simp add: lower_def)

lemma isspace_lower_char [simp]: "isspace (lower_char c) = isspace c"
  by (auto simp: lower_char_def isspace_def split: option.splits if_splits)

lemma lstrip_idem [simp]: "lstrip (lstrip s) = lstrip s"
  by (simp add: lstrip_def dropWhile_idem)

lemma rstrip_idem [simp]: "rstrip (rstrip s) = rstrip s"
  by (simp add: rstrip_def dropWhile_idem)

lemma lstrip_all: "\<forall>c \<in> set s. isspace c \<Longrightarrow> lstrip s = []"
  by (simp add: lstrip_def)

lemma rstrip_all: "\<forall>c \<in> set s. isspace c \<Longrightarrow> rstrip s = []"
  by (simp add: rstrip_def)

lemma rstrip_Cons: "\<not> isspace x \<Longrightarrow> rstrip (x # zs) = x # rstrip zs"
  by (simp add: rstrip_def dropWhile_append)

lemma lstrip_rstrip_commute: "lstrip (rstrip s) = rstrip (lstrip s)"
proof (cases "\<forall>c \<in> set s. isspace c")
  case True
  then show ?thesis by (simp add: lstrip_all rstrip_all)
next
  case False
  then have "\<exists>x \<in> set s. \<not> isspace x" by blast
  then obtain ws x zs where f: "s = ws @ x # zs" "\<not> isspace x" "\<forall>w \<in> set ws. isspace w"
    using split_list_first_prop [of s "\<lambda>x. \<not> isspace x"] by blast
  have l: "lstrip s = x # zs"
    using f by (simp add: lstrip_def dropWhile_append3)
  have "dropWhile isspace ((rev zs @ [x]) @ rev ws) = dropWhile isspace (rev zs @ [x]) @ rev ws"
    using f(2) by (intro dropWhile_append1 [of x]) simp_all
  then have r: "rstrip (ws @ x # zs) = ws @ rstrip (x # zs)"
    by (simp add: rstrip_def)
  have ne: "rstrip (x # zs) = x # rstrip zs"
    using f(2) by (rule rstrip_Cons)
  have "lstrip (rstrip s) = lstrip (ws @ rstrip (x # zs))"
    using f(1) r by simp
  also have "\<dots> = rstrip (x # zs)"
    using f(2,3) ne by (simp add: lstrip_def dropWhile_append3)
  finally show ?thesis using l by simp
qed

lemma strip_idem [simp]: "strip (strip s) = strip s"
  by (simp add: strip_def lstrip_rstrip_commute)

lemma sublist_lstrip: "sublist (lstrip s) s"
  unfolding lstrip_def by (metis append_Nil2 sublist_appendI takeWhile_dropWhile_id)

lemma sublist_rstrip: "sublist (rstrip s) s"
proof -
  have "sublist (dropWhile isspace (rev s)) (rev s)"
    by (metis append_Nil2 sublist_appendI takeWhile_dropWhile_id)
  then show ?thesis by (simp add: rstrip_def sublist_rev_left)
qed

lemma sublist_strip: "sublist (strip s) s"
  unfolding strip_def using sublist_rstrip sublist_lstrip sublist_order.order_trans by blast

lemma strip_prefix_loop_cases:
  "strip_prefix_loop ps q = q \<and> (\<forall>p \<in> set ps. \<not> prefix p (lower q))
   \<or> (\<exists>p \<in> set ps. prefix p (lower q) \<and> strip_prefix_loop ps q = strip (drop (length p) q))"
  by (induction ps) auto

lemma strip_prefix_loop_no_match:
  "\<forall>p \<in> set ps. \<not> prefix p (lower q) \<Longrightarrow> strip_prefix_loop ps q = q"
  by (induction ps) auto

lemma strip_strip_prefix_loop:
  "strip q = q \<Longrightarrow> strip (strip_prefix_loop ps q) = strip_prefix_loop ps q"
  using strip_prefix_loop_cases [of ps q] by auto

lemma sublist_strip_prefix_loop: "sublist (strip_prefix_loop ps q) q"
proof -
  have "sublist (strip (drop n q)) q" for n
    using sublist_strip sublist_drop sublist_order.order_trans by blast
  then show ?thesis using strip_prefix_loop_cases [of ps q] by auto
qed


section \<open>Claims about the memory and the normaliser\<close>

lemma length_deque_append:
  "length d \<le> k \<Longrightarrow> length (deque_append k d x) \<le> k"
  by (simp add: deque_append_def Let_def)

lemma max_history_record_turns [simp]: "max_history (record_turns m ts) = max_history m"
  by (induction m ts rule: record_turns.induct) (simp_all add: save_context_def)

lemma history_record_turns:
  "length (history m) \<le> max_history m \<Longrightarrow>
   history (record_turns m ts) =
     drop (length (history m) + length ts - max_history m) (history m @ map turn_entry ts)"
proof (induction m ts rule: record_turns.induct)
  case (1 m)
  then show ?case by simp
next
  case (2 m u b t ts)
  let ?e = "\<lparr>user = u, bot = b, timestamp = t\<rparr>"
  let ?m = "save_context m u b t"
  have k: "max_history ?m = max_history m"
    by (simp add: save_context_def)
  have h: "history ?m = deque_append (max_history m) (history m) ?e"
    by (simp add: save_context_def)
  have inv: "length (history ?m) \<le> max_history ?m"
    using "2.prems" by (simp add: h k length_deque_append)
  have ih: "history (record_turns ?m ts) =
      drop (length (history ?m) + length ts - max_history m) (history ?m @ map turn_entry ts)"
    using "2.IH" [OF inv] by (simp add: k)
  show ?case
  proof (cases "length (history m) < max_history m")
    case True
    then have "history ?m = history m @ [?e]"
      by (simp add: h deque_append_def)
    then show ?thesis using ih by simp
  next
    case False
    then have full: "length (history m) = max_history m"
      using "2.prems" by simp
    then have hm: "history ?m = tl (history m @ [?e])"
      by (simp add: h deque_append_def)
    have app: "history ?m @ map turn_entry ts = tl (history m @ ?e # map turn_entry ts)"
      by (cases "history m") (simp_all add: hm)
    have len: "length (history ?m) = max_history m"
      by (simp add: hm full)
    have "history (record_turns ?m ts) = drop (length ts) (tl (history m @ ?e # map turn_entry ts))"
      using ih by (simp only: app len) simp
    also have "\<dots> = drop (Suc (length ts)) (history m @ ?e # map turn_entry ts)"
      by (simp only: drop_Suc)
    also have "Suc (length ts) = length (history m) + length ((u, b, t) # ts) - max_history m"
      by (simp add: full)
    finally show ?thesis by simp
  qed
qed

text \<open>
  C4. In a memory of capacity \<open>K\<close> that holds at most \<open>K\<close> turns, recording \<open>K + 1\<close> turns
  leaves exactly \<open>K\<close> turns: the last \<open>K\<close> of the recorded ones in their order, so the
  oldest is the one evicted. \<open>save_context\<close> and \<open>clear\<close> keep the number of stored turns
  at most \<open>K\<close> and leave the capacity alone, and a new memory satisfies the bound.
\<close>

theorem memory_bound_fifo:
  assumes "length (history m) \<le> max_history m"
  shows "(length ts = max_history m + 1 \<longrightarrow>
            history (record_turns m ts) = map turn_entry (tl ts)
          \<and> length (history (record_turns m ts)) = max_history m)
       \<and> length (history (save_context m u b t)) \<le> max_history (save_context m u b t)
       \<and> max_history (save_context m u b t) = max_history m
       \<and> length (history (clear m)) \<le> max_history (clear m)
       \<and> max_history (clear m) = max_history m
       \<and> length (history (record_turns m ts)) \<le> max_history (record_turns m ts)
       \<and> (\<forall>k m0. ConversationMemory_init k = Some m0 \<longrightarrow>
             history m0 = [] \<and> length (history m0) \<le> max_history m0)"
proof -
  have a: "history (record_turns m ts) = map turn_entry (tl ts)
           \<and> length (history (record_turns m ts)) = max_history m"
    if "length ts = max_history m + 1"
  proof -
    have "history (record_turns m ts) = drop (Suc (length (history m))) (history m @ map turn_entry ts)"
      using history_record_turns [OF assms, of ts] that by simp
    then have "history (record_turns m ts) = map turn_entry (tl ts)"
      by (simp add: drop_Suc drop_map map_tl)
    then show ?thesis using that by simp
  qed
  have b: "length (history (save_context m u b t)) \<le> max_history (save_context m u b t)"
    using assms by (simp add: save_context_def length_deque_append)
  have c: "length (history (record_turns m ts)) \<le> max_history (record_turns m ts)"
    using history_record_turns [OF assms, of ts] by simp
  have d: "\<forall>k m0. ConversationMemory_init k = Some m0 \<longrightarrow>
             history m0 = [] \<and> length (history m0) \<le> max_history m0"
    by (auto simp: ConversationMemory_init_def split: if_splits)
  show ?thesis
    using a b c d by (simp add: save_context_def clear_def)
qed

theorem memory_bound_fifo_witness:
  "history (record_turns \<lparr>history = [], max_history = 1, last_user_query = None\<rparr>
      [(''q1'', ''r1'', ''t1''), (''q2'', ''r2'', ''t2'')])
   = [\<lparr>user = ''q2'', bot = ''r2'', timestamp = ''t2''\<rparr>]"
proof -
  have h: "length (history \<lparr>history = [], max_history = 1, last_user_query = None\<rparr>)
           \<le> max_history \<lparr>history = [], max_history = 1, last_user_query = None\<rparr>"
    by simp
  show ?thesis
    using memory_bound_fifo [OF h, of "[(''q1'', ''r1'', ''t1''), (''q2'', ''r2'', ''t2'')]"]
    by simp
qed

text \<open>
  C5. \<open>_clean_query\<close> of bot.py turns \<open>Who is Marie Curie?\<close> into \<open>Marie Curie?\<close>. On
  every input the result is the stripped input with nothing or one prefix of the list
  cut from its front, stripped again; so it is a contiguous piece of the input, character
  for character, and the casing of the remainder is the input's.
\<close>

theorem kb_clean_query_marie_curie:
  "kb_clean_query ''Who is Marie Curie?'' = ''Marie Curie?''
   \<and> (\<exists>p \<in> set ([] # kb_prefixes). kb_clean_query q = strip (drop (length p) (strip q)))
   \<and> sublist (kb_clean_query q) q"
proof (intro conjI)
  show "kb_clean_query ''Who is Marie Curie?'' = ''Marie Curie?''"
    by (simp add: kb_clean_query_def kb_prefixes_def strip_def lstrip_def rstrip_def
        isspace_def lower_def lower_char_def)
  show "\<exists>p \<in> set ([] # kb_prefixes). kb_clean_query q = strip (drop (length p) (strip q))"
    unfolding kb_clean_query_def
    using strip_prefix_loop_cases [of kb_prefixes "strip q"] by auto
  show "sublist (kb_clean_query q) q"
    unfolding kb_clean_query_def
    using sublist_strip_prefix_loop sublist_strip sublist_order.order_trans by blast
qed

text \<open>
  C6, as the claim states it, fails: one call cuts one prefix, so a query that starts
  with two prefixes loses the second one in the second call.
\<close>

theorem clean_query_idempotent_counterexample:
  "kb_clean_query (kb_clean_query ''who is what is love'') \<noteq> kb_clean_query ''who is what is love''
   \<and> lc_clean_query (lc_clean_query ''who is what is love'') \<noteq> lc_clean_query ''who is what is love''"
  by (simp add: kb_clean_query_def kb_prefixes_def lc_clean_query_def lc_prefixes_def
      strip_def lstrip_def rstrip_def isspace_def lower_def lower_char_def)

lemma strip_prefix_loop_idem:
  assumes "\<forall>p \<in> set ps. \<not> prefix p (lower (strip_prefix_loop ps (strip x)))"
  shows "strip_prefix_loop ps (strip (strip_prefix_loop ps (strip x))) = strip_prefix_loop ps (strip x)"
proof -
  have "strip (strip_prefix_loop ps (strip x)) = strip_prefix_loop ps (strip x)"
    by (rule strip_strip_prefix_loop) simp
  then show ?thesis
    using strip_prefix_loop_no_match [OF assms] by simp
qed

text \<open>
  C6, amended: when the normalised query starts with none of the prefixes of the list
  (compared in lower case), normalising it again changes nothing. This holds of
  \<open>_clean_query\<close> in bot.py and in langchain_bot.py.
\<close>

theorem clean_query_idempotent:
  "((\<forall>p \<in> set kb_prefixes. \<not> prefix p (lower (kb_clean_query x))) \<longrightarrow>
      kb_clean_query (kb_clean_query x) = kb_clean_query x)
   \<and> ((\<forall>p \<in> set lc_prefixes. \<not> prefix p (lower (lc_clean_query x))) \<longrightarrow>
      lc_clean_query (lc_clean_query x) = lc_clean_query x)"
  unfolding kb_clean_query_def lc_clean_query_def
  using strip_prefix_loop_idem by blast

theorem clean_query_idempotent_witness:
  "kb_clean_query (kb_clean_query ''Who is Marie Curie?'') = ''Marie Curie?''
   \<and> lc_clean_query (lc_clean_query ''Who is Marie Curie?'') = ''Marie Curie?''"
proof -
  have v: "kb_clean_query ''Who is Marie Curie?'' = ''Marie Curie?''"
          "lc_clean_query ''Who is Marie Curie?'' = ''Marie Curie?''"
    by (simp_all add: kb_clean_query_def kb_prefixes_def lc_clean_query_def lc_prefixes_def
        strip_def lstrip_def rstrip_def isspace_def lower_def lower_char_def)
  have h1: "\<forall>p \<in> set kb_prefixes. \<not> prefix p (lower (kb_clean_query ''Who is Marie Curie?''))"
    unfolding v by (simp add: kb_prefixes_def lower_def lower_char_def)
  have h2: "\<forall>p \<in> set lc_prefixes. \<not> prefix p (lower (lc_clean_query ''Who is Marie Curie?''))"
    unfolding v by (simp add: lc_prefixes_def lower_def lower_char_def)
  show ?thesis
    using clean_query_idempotent [of "''Who is Marie Curie?''"] h1 h2 v by simp
qed

section \<open>Claims about entity extraction and follow-up classification\<close>

lemmas str_eval = strip_def lstrip_def rstrip_def isspace_def lower_def lower_char_def

text \<open>
  C7. \<open>_extract_entity\<close> gives \<open>google\<close> for \<open>Who is the CEO of Google?\<close> (the query is
  lower-cased, the pattern \<open>ceo of\<close> is the first of the table that matches, and the
  captured span holds no article), and \<open>quantum computing\<close> for
  \<open>What is quantum computing?\<close>.
\<close>

theorem extract_entity_examples:
  "extract_entity ''Who is the CEO of Google?'' = Some ''google''
   \<and> extract_entity ''What is quantum computing?'' = Some ''quantum computing''"
  by (simp add: extract_entity_def entity_patterns_def match_at_def at_terminator_def
      article_at_def word_boundary_def isword_def rstrip_question_def str_eval)

text \<open>
  C8. \<open>_is_follow_up\<close> holds of \<open>Where was he born?\<close> (the pattern \<open>^where \<close>) and does
  not hold of \<open>What is the capital of France?\<close> (no pattern of the list matches).
\<close>

theorem is_follow_up_examples:
  "is_follow_up ''Where was he born?''
   \<and> \<not> is_follow_up ''What is the capital of France?''"
  by (simp add: is_follow_up_def follow_up_patterns_def what_possessive_def str_eval)

section \<open>Facts about process_query\<close>

lemma lower_strip: "lower (strip q) = strip (lower q)"
proof -
  have l: "map lower_char (dropWhile isspace xs) = dropWhile isspace (map lower_char xs)" for xs
    by (induction xs) simp_all
  have "lower (strip q) = rev (map lower_char (dropWhile isspace (rev (dropWhile isspace q))))"
    by (simp add: strip_def lstrip_def rstrip_def lower_def rev_map)
  also have "\<dots> = rev (dropWhile isspace (rev (dropWhile isspace (map lower_char q))))"
    by (simp only: l rev_map [symmetric])
  finally show ?thesis
    by (simp add: strip_def lstrip_def rstrip_def lower_def)
qed

lemma sublist_lstrip_keep:
  assumes "sublist p s" "p \<noteq> []" "\<not> isspace (hd p)"
  shows "sublist p (lstrip s)"
proof -
  obtain a b where s: "s = a @ p @ b"
    using assms(1) by (auto simp: sublist_def)
  have "dropWhile isspace (p @ b) = p @ b"
    using assms(2,3) by (cases p) simp_all
  then have "lstrip s = (if \<forall>x \<in> set a. isspace x then p @ b else dropWhile isspace a @ p @ b)"
    by (simp add: s lstrip_def dropWhile_append)
  then show ?thesis
    by (auto simp: sublist_def intro: exI [of _ "[]"])
qed

lemma sublist_rstrip_keep:
  assumes "sublist p s" "p \<noteq> []" "\<not> isspace (last p)"
  shows "sublist p (rstrip s)"
proof -
  have "sublist (rev p) (lstrip (rev s))"
    using assms by (intro sublist_lstrip_keep) (simp_all add: sublist_rev hd_rev)
  then have "sublist (rev p) (rev (rstrip s))"
    by (simp add: rstrip_def lstrip_def)
  then show ?thesis by (simp only: sublist_rev)
qed

lemma sublist_strip_keep:
  assumes "sublist p s" "p \<noteq> []" "\<not> isspace (hd p)" "\<not> isspace (last p)"
  shows "sublist p (strip s)"
  unfolding strip_def using assms by (intro sublist_rstrip_keep sublist_lstrip_keep)

lemma contains_thank_strip:
  assumes "contains ''thank'' (lower q)"
  shows "contains ''thank'' (lower (strip q))"
proof -
  have "sublist ''thank'' (strip (lower q))"
    using assms by (intro sublist_strip_keep) (simp_all add: contains_iff_sublist isspace_def)
  then show ?thesis by (simp add: lower_strip contains_iff_sublist)
qed

lemma thank_not_command:
  assumes "contains ''thank'' x"
  shows "x \<noteq> []" "x \<notin> set [''hi'', ''hello'', ''hey'']" "x \<notin> set [''help'', ''?'']"
  using assms by auto


lemma kb_process_query_thanks:
  assumes "contains ''thank'' (lower q)"
  shows "kb_process_query W q now (m, s) = (Inr kb_handle_thanks, m, s)"
proof -
  have c: "contains ''thank'' (lower (strip q))"
    using assms by (rule contains_thank_strip)
  have "strip q \<noteq> []"
    using c by (auto simp: lower_def)
  then show ?thesis
    using c thank_not_command(2,3) [OF c]
    by (simp add: kb_process_query_def Let_def del: set_simps)
qed

lemma lc_process_query_thanks:
  assumes "contains ''thank'' (lower q)"
  shows "lc_process_query W q (self, s)
         = (Inr lc_handle_thanks, simple_save_context self (strip q) lc_handle_thanks, s)"
proof -
  have c: "contains ''thank'' (lower (strip q))"
    using assms by (rule contains_thank_strip)
  have "strip q \<noteq> []"
    using c by (auto simp: lower_def)
  then show ?thesis
    using c thank_not_command(2,3) [OF c]
    by (simp add: lc_process_query_def Let_def del: set_simps)
qed

lemma hello_eval:
  "strip ''hello'' = ''hello''" "lower ''hello'' = ''hello''"
  by (simp_all add: str_eval)

text \<open>
  C1, as the claim states it, fails for \<open>KnowledgeBot.process_query\<close> of bot.py: the
  greeting is returned before \<open>save_context\<close>, and the memory, empty before the call,
  is empty after it.
\<close>

theorem greeting_recorded_counterexample:
  "fst (kb_process_query offline ''hello'' ''2024-01-01T00:00:00''
          (\<lparr>history = [], max_history = 10, last_user_query = None\<rparr>, env0))
   = Inr kb_handle_greeting
   \<and> history (fst (snd (kb_process_query offline ''hello'' ''2024-01-01T00:00:00''
          (\<lparr>history = [], max_history = 10, last_user_query = None\<rparr>, env0))))
   = []"
  by (simp add: kb_process_query_def hello_eval)

text \<open>
  C1, amended. For the input \<open>hello\<close> both bots return their fixed greeting and leave
  the environment as it is: no provider call is made. \<open>LangChainKnowledgeBot\<close> appends
  the exchange to its memory and leaves \<open>last_entity\<close> alone; \<open>KnowledgeBot\<close> leaves its
  memory as it is.
\<close>

theorem greeting_hello:
  "kb_process_query W ''hello'' now (m, s) = (Inr kb_handle_greeting, m, s)
   \<and> lc_process_query W ''hello'' (self, s)
     = (Inr lc_handle_greeting,
        self\<lparr>memory := memory self @ ''Human: hello\<newline>AI: '' @ lc_handle_greeting @ ''\<newline>''\<rparr>,
        s)"
  by (simp add: kb_process_query_def lc_process_query_def simple_save_context_def hello_eval)

text \<open>
  C3. When the normalised query is empty, the search routine of either bot returns its
  fixed message and leaves the environment as it is: the world is untouched and the list
  of provider calls made is the same as before.
\<close>

theorem empty_query_no_provider_call:
  "(kb_clean_query q = [] \<longrightarrow>
      kb_search_wikipedia W q s = (Inr ''Please provide a specific topic to search for.'', s))
   \<and> (lc_clean_query q = [] \<longrightarrow>
      search_wikipedia_direct W q s = (Inr ''Please provide a specific topic.'', s))"
  by (simp add: kb_search_wikipedia_def kb_search_wikipedia_body_def
      search_wikipedia_direct_def search_wikipedia_direct_body_def)

theorem empty_query_no_provider_call_witness:
  "kb_search_wikipedia ada_wikipedia ''Who is  '' \<lparr>world = 0, calls = []\<rparr>
     = (Inr ''Please provide a specific topic to search for.'', \<lparr>world = 0, calls = []\<rparr>)
   \<and> search_wikipedia_direct ada_wikipedia ''Who is  '' \<lparr>world = 0, calls = []\<rparr>
     = (Inr ''Please provide a specific topic.'', \<lparr>world = 0, calls = []\<rparr>)"
proof -
  have h: "kb_clean_query ''Who is  '' = []" "lc_clean_query ''Who is  '' = []"
    by (simp_all add: kb_clean_query_def kb_prefixes_def lc_clean_query_def lc_prefixes_def str_eval)
  show ?thesis
    using empty_query_no_provider_call [of "''Who is  ''" ada_wikipedia "\<lparr>world = 0, calls = []\<rparr>"] h
    by simp
qed

text \<open>
  C10. Every input whose lower-cased form contains \<open>thank\<close> gets the fixed thanks
  message from either bot, and the environment stays as it is: no provider call is
  made. \<open>KnowledgeBot\<close> leaves its memory as it is; \<open>LangChainKnowledgeBot\<close> saves the
  exchange and leaves \<open>last_entity\<close> alone.
\<close>

theorem thank_anywhere:
  assumes "contains ''thank'' (lower q)"
  shows "kb_process_query W q now (m, s) = (Inr kb_handle_thanks, m, s)
         \<and> lc_process_query W q (self, s)
           = (Inr lc_handle_thanks, simple_save_context self (strip q) lc_handle_thanks, s)
         \<and> last_entity (simple_save_context self (strip q) lc_handle_thanks) = last_entity self"
proof -
  have "last_entity (simple_save_context self (strip q) lc_handle_thanks) = last_entity self"
    by (simp add: simple_save_context_def)
  then show ?thesis
    using kb_process_query_thanks [OF assms, of W now m s]
      lc_process_query_thanks [OF assms, of W self s]
    by simp
qed

theorem thank_anywhere_witness:
  "kb_process_query ada_wikipedia ''When is Thanksgiving?'' ''2024-01-01T00:00:00''
     (\<lparr>history = [], max_history = 10, last_user_query = None\<rparr>, \<lparr>world = 0, calls = []\<rparr>)
   = (Inr kb_handle_thanks, \<lparr>history = [], max_history = 10, last_user_query = None\<rparr>,
      \<lparr>world = 0, calls = []\<rparr>)
   \<and> fst (lc_process_query ada_wikipedia ''When is Thanksgiving?''
         (\<lparr>memory = [], last_entity = None\<rparr>, \<lparr>world = 0, calls = []\<rparr>))
     = Inr lc_handle_thanks
   \<and> snd (snd (lc_process_query ada_wikipedia ''When is Thanksgiving?''
         (\<lparr>memory = [], last_entity = None\<rparr>, \<lparr>world = 0, calls = []\<rparr>)))
     = \<lparr>world = 0, calls = []\<rparr>"
proof -
  have h: "contains ''thank'' (lower ''When is Thanksgiving?'')"
    by (simp add: lower_def lower_char_def)
  show ?thesis
    using thank_anywhere [OF h, of ada_wikipedia] by simp
qed

section \<open>No exception leaves process_query\<close>

lemma split_ws_nonempty: "w \<in> set (split_ws acc s) \<Longrightarrow> w \<noteq> []"
  by (induction s arbitrary: acc) (auto split: if_splits)

lemma capitalized_pair_loop_returns:
  "\<forall>w \<in> set ws. w \<noteq> [] \<Longrightarrow> \<exists>r. capitalized_pair_loop ws = Inr r"
proof (induction ws)
  case Nil
  then show ?case by simp
next
  case (Cons word rest)
  then obtain r where r: "capitalized_pair_loop rest = Inr r" by auto
  have "v = capitalized_pair_loop rest \<or> (\<exists>x. v = Inr x)"
    if "capitalized_pair_loop (word # rest) = v" for v
    using Cons.prems that
    unfolding capitalized_pair_loop.simps(2) [of word rest]
    by (auto simp: Let_def split: list.splits if_splits simp del: capitalized_pair_loop.simps)
  then show ?case using r by auto
qed

lemma extract_entity_from_response_returns:
  "\<exists>r. extract_entity_from_response response = Inr r"
proof -
  have "\<exists>r. capitalized_pair_loop (split response) = Inr r"
    by (rule capitalized_pair_loop_returns) (auto simp: split_def dest: split_ws_nonempty)
  then show ?thesis
    by (auto simp: extract_entity_from_response_def split: option.splits)
qed

lemma search_wikipedia_direct_returns:
  "\<exists>r s'. search_wikipedia_direct W query s = (Inr r, s')"
  by (auto simp: search_wikipedia_direct_def split: prod.splits sum.splits)

lemma extract_education_info_returns:
  "\<exists>r s'. extract_education_info W main_page_response entity_name s = (Inr r, s')"
  unfolding extract_education_info_def
  by (cases "do_page W entity_name False s") (auto split: sum.splits)

lemma handle_follow_up_returns:
  "\<exists>r s'. handle_follow_up W self query s = (Inr r, s')"
proof -
  have a: "\<exists>r s'. (case search_wikipedia_direct W x s0 of
                      (Inl e, s1) \<Rightarrow> (Inl e, s1)
                    | (Inr y, s1) \<Rightarrow> f y s1) = (Inr r, s')"
    if "\<And>y s1. \<exists>r s'. f y s1 = (Inr r, s')" for x s0 and f :: "string \<Rightarrow> 'a env \<Rightarrow> (exn + string) \<times> 'a env"
    using search_wikipedia_direct_returns [of W x s0] that by auto
  have b: "\<exists>r s'. (if c then extract_education_info W x y s1 else (Inr x, s1)) = (Inr r, s')"
    for c x y s1
    using extract_education_info_returns [of W x y s1] by auto
  have c: "\<exists>r s'. (case search_wikipedia_direct W (last_topic @ '' education'') s of
                 (Inl e, s1) \<Rightarrow> (Inl e, s1)
               | (Inr education_result, s1) \<Rightarrow>
                   (if education_result \<noteq> [] \<and> \<not> contains ''Could not find'' education_result
                    then (if contains (lower last_topic) (lower education_result)
                             \<and> \<not> contains ''education'' (lower education_result)
                          then extract_education_info W education_result last_topic s1
                          else (Inr education_result, s1))
                    else (case search_wikipedia_direct W last_topic s1 of
                            (Inl e, s2) \<Rightarrow> (Inl e, s2)
                          | (Inr main_page, s2) \<Rightarrow>
                              extract_education_info W main_page last_topic s2))) = (Inr r, s')"
    for last_topic
    apply (rule a)
    subgoal for y s1
      apply (cases "y \<noteq> [] \<and> \<not> contains ''Could not find'' y")
      subgoal using b by simp
      subgoal
        using a [of "\<lambda>main_page s2. extract_education_info W main_page last_topic s2" last_topic s1]
          extract_education_info_returns [of W _ last_topic]
        by (simp del: contains.simps)
      done
    done
  show ?thesis
    unfolding handle_follow_up_def Let_def
    using c search_wikipedia_direct_returns [of W _ s]
    by (simp del: contains.simps)
qed


lemma search_wikipedia_direct_not_Inl: "search_wikipedia_direct W x s \<noteq> (Inl e, s')"
  using search_wikipedia_direct_returns [of W x s] by auto

lemma extract_entity_from_response_not_Inl: "extract_entity_from_response response \<noteq> Inl e"
  using extract_entity_from_response_returns [of response] by auto

lemma handle_follow_up_not_Inl: "handle_follow_up W self x s \<noteq> (Inl e, s')"
  using handle_follow_up_returns [of W self x s] by auto

lemma answer_query_returns:
  "\<exists>r st'. answer_query W self query s = (Inr r, st')"
  unfolding answer_query_def Let_def
  by (simp add: search_wikipedia_direct_not_Inl extract_entity_from_response_not_Inl
      split: prod.splits sum.splits)

lemma lc_process_query_returns:
  "\<exists>r st'. lc_process_query W q (self, s) = (Inr r, st')"
proof -
  have "\<exists>r st'. (case handle_follow_up W self x s of
                    (Inl e, s1) \<Rightarrow> (Inl e, self, s1)
                  | (Inr follow_up_response, s1) \<Rightarrow>
                      (if follow_up_response \<noteq> [] \<and> \<not> contains ''Could not find'' follow_up_response
                       then (Inr follow_up_response,
                             simple_save_context self x follow_up_response, s1)
                       else answer_query W self x s1)) = (Inr r, st')" for x
    using answer_query_returns [of W self x]
    by (simp add: handle_follow_up_not_Inl split: prod.splits sum.splits del: contains.simps)
  then show ?thesis
    unfolding lc_process_query_def Let_def
    using answer_query_returns [of W self _ s]
    by (simp del: contains.simps set_simps)
qed

lemma kb_search_wikipedia_returns:
  "\<exists>r s'. kb_search_wikipedia W q s = (Inr r, s')"
  by (auto simp: kb_search_wikipedia_def split: prod.splits sum.splits)

lemma kb_process_query_returns:
  "\<exists>r st'. kb_process_query W q now (m, s) = (Inr r, st')"
proof -
  have "kb_search_wikipedia W x s \<noteq> (Inl e, s')" for x e s'
    using kb_search_wikipedia_returns [of W x s] by auto
  then show ?thesis
    unfolding kb_process_query_def Let_def
    by (simp del: contains.simps set_simps split: prod.splits sum.splits)
qed

lemma do_search_raises:
  assumes "\<forall>q n w. \<exists>e. fst (wikipedia_search W q n w) = Inl e"
  shows "\<exists>e s1. do_search W q n s = (Inl e, s1)"
proof -
  obtain e where "fst (wikipedia_search W q n (world s)) = Inl e"
    using assms by blast
  then show ?thesis
    by (cases "wikipedia_search W q n (world s)") (simp add: do_search_def)
qed

lemma key_terms_loop_all_raise:
  assumes "\<forall>q n w. \<exists>e. fst (wikipedia_search W q n w) = Inl e"
  shows "fst (key_terms_loop W words is s) = []"
proof (induction "is" arbitrary: s)
  case Nil
  then show ?case by simp
next
  case (Cons i "is")
  obtain e s1 where "do_search W (join '' '' (take 3 (drop i words))) 10 s = (Inl e, s1)"
    using do_search_raises [OF assms] by blast
  then show ?case using Cons.IH by simp
qed

lemma kb_search_wikipedia_all_raise:
  assumes all: "\<forall>q n w. \<exists>e. fst (wikipedia_search W q n w) = Inl e"
    and ne: "kb_clean_query q \<noteq> []"
  shows "fst (kb_search_wikipedia W q s)
         = Inr (''Could not find information about '' @ [CHR 0x27] @ q @ [CHR 0x27]
                @ ''.\<newline>\<newline> Try rephrasing your question or checking the spelling.'')"
proof -
  obtain e1 s1 where c1: "do_search W (kb_clean_query q) 10 s = (Inl e1, s1)"
    using do_search_raises [OF all] by blast
  obtain e2 s2 where c2: "do_search W q 10 s1 = (Inl e2, s2)"
    using do_search_raises [OF all] by blast
  obtain s3 where c3: "key_terms_loop W (split q) [0 ..< min 3 (length (split q))] s2 = ([], s3)"
    using key_terms_loop_all_raise [OF all, of "split q" _ s2] by (metis prod.collapse)
  show ?thesis
    using ne c1 c2 c3
    by (simp add: kb_search_wikipedia_def kb_search_wikipedia_body_def Let_def)
qed

text \<open>
  C2. Whatever the provider does, also when its calls raise, \<open>process_query\<close> and the
  search routine of either bot return a string: the result is never an exception. An
  exception that leaves the body of \<open>_search_wikipedia_direct\<close> becomes the message
  \<open>Error searching Wikipedia\<close> with the exception's text, and when every search of the
  provider raises, \<open>_search_wikipedia\<close> of bot.py answers with its apology.
\<close>

theorem process_query_never_raises:
  "(\<exists>r st'. kb_process_query W q now (m, s) = (Inr r, st'))
   \<and> (\<exists>r st'. lc_process_query W q (self, s) = (Inr r, st'))
   \<and> (\<exists>r s'. kb_search_wikipedia W q s = (Inr r, s'))
   \<and> (\<exists>r s'. search_wikipedia_direct W q s = (Inr r, s'))
   \<and> (\<forall>e s'. search_wikipedia_direct_body W q s = (Inl e, s') \<longrightarrow>
         search_wikipedia_direct W q s = (Inr ('' Error searching Wikipedia: '' @ str_exn e), s'))
   \<and> ((\<forall>q' n w. \<exists>e. fst (wikipedia_search W q' n w) = Inl e) \<and> kb_clean_query q \<noteq> [] \<longrightarrow>
         fst (kb_search_wikipedia W q s)
         = Inr (''Could not find information about '' @ [CHR 0x27] @ q @ [CHR 0x27]
                @ ''.\<newline>\<newline> Try rephrasing your question or checking the spelling.''))"
proof -
  have "\<forall>e s'. search_wikipedia_direct_body W q s = (Inl e, s') \<longrightarrow>
         search_wikipedia_direct W q s = (Inr ('' Error searching Wikipedia: '' @ str_exn e), s')"
    by (simp add: search_wikipedia_direct_def)
  then show ?thesis
    using kb_process_query_returns [of W q now m s] lc_process_query_returns [of W q self s]
      kb_search_wikipedia_returns [of W q s] search_wikipedia_direct_returns [of W q s]
      kb_search_wikipedia_all_raise [of W q s]
    by blast
qed

theorem process_query_never_raises_witness:
  "fst (kb_search_wikipedia offline ''Python'' env0)
     = Inr (''Could not find information about '' @ [CHR 0x27] @ ''Python'' @ [CHR 0x27]
            @ ''.\<newline>\<newline> Try rephrasing your question or checking the spelling.'')
   \<and> search_wikipedia_direct offline ''Python'' env0
     = (Inr '' Error searching Wikipedia: offline'', \<lparr>world = (), calls = [PageCall ''Python'' False]\<rparr>)"
proof -
  have h1: "\<forall>q' n w. \<exists>e. fst (wikipedia_search offline q' n w) = Inl e"
    by (simp add: offline_def)
  have h2: "kb_clean_query ''Python'' \<noteq> []"
    by (simp add: kb_clean_query_def kb_prefixes_def str_eval)
  have h3: "search_wikipedia_direct_body offline ''Python'' env0
            = (Inl (Exception ''offline''), \<lparr>world = (), calls = [PageCall ''Python'' False]\<rparr>)"
    by (simp add: search_wikipedia_direct_body_def lc_clean_query_def lc_prefixes_def str_eval
        general_lookup_def page_and_summary_def do_page_def offline_def env0_def)
  show ?thesis
    using process_query_never_raises [of offline "''Python''" _ _ env0] h1 h2 h3
    by simp
qed

section \<open>The education formatter\<close>

lemma re_split_acc_no_end:
  "\<forall>c \<in> set acc. \<not> is_sentence_end c \<Longrightarrow> x \<in> set (re_split_acc in_run acc s)
   \<Longrightarrow> \<forall>c \<in> set x. \<not> is_sentence_end c"
proof (induction s arbitrary: acc in_run)
  case Nil
  then show ?case by simp
next
  case (Cons a s)
  show ?case
  proof (cases "is_sentence_end a")
    case True
    then have "x = acc \<or> x \<in> set (re_split_acc True acc s) \<or> x \<in> set (re_split_acc True [] s)"
      using Cons.prems(2) by (auto split: if_splits)
    then show ?thesis
      using Cons.IH [of acc True] Cons.IH [of "[]" True] Cons.prems(1) by auto
  next
    case False
    then have "x \<in> set (re_split_acc False (acc @ [a]) s)"
      using Cons.prems(2) by simp
    then show ?thesis
      using Cons.IH [of "acc @ [a]" False] Cons.prems(1) False by auto
  qed
qed

lemma set_strip: "set (strip x) \<subseteq> set x"
  using sublist_strip by (rule set_mono_sublist)

lemma education_sentences_props:
  assumes "x \<in> set (education_sentences keywords text)"
  shows "x \<noteq> []" "any_in keywords (lower x)" "\<forall>c \<in> set x. \<not> is_sentence_end c"
proof -
  obtain y where y: "y \<in> set (re_split text)" "x = strip y" "x \<noteq> []" "any_in keywords (lower x)"
    using assms by (auto simp: education_sentences_def)
  show "x \<noteq> []" "any_in keywords (lower x)"
    using y by simp_all
  have "\<forall>c \<in> set y. \<not> is_sentence_end c"
    using y(1) re_split_acc_no_end [where acc = "[]" and x = y and in_run = False and s = "text"] by (simp add: re_split_def)
  then show "\<forall>c \<in> set x. \<not> is_sentence_end c"
    using y(2) set_strip by blast
qed

lemma join_last:
  "xs \<noteq> [] \<Longrightarrow> last xs \<noteq> [] \<Longrightarrow> join sep xs \<noteq> [] \<and> last (join sep xs) = last (last xs)"
  by (induction sep xs rule: join.induct) auto

lemma body_no_ellipsis:
  assumes "found \<noteq> []" "\<forall>x \<in> set found. x \<noteq> [] \<and> (\<forall>c \<in> set x. \<not> is_sentence_end c)"
    and that: "0 < n"
  shows "\<not> suffix ''...'' (join ''. '' (take n found))"
proof
  assume s: "suffix ''...'' (join ''. '' (take n found))"
  let ?k = "take n found"
  have k: "?k \<noteq> []" using assms(1) that by (cases found) simp_all
  then have "last ?k \<in> set found"
    by (meson in_set_takeD last_in_set)
  then have l: "last ?k \<noteq> []" "\<not> is_sentence_end (last (last ?k))"
    using assms(2) by (simp_all add: last_in_set)
  have "last (join ''. '' ?k) = last (last ?k)"
    using join_last [OF k l(1)] by simp
  moreover have "last (join ''. '' ?k) = CHR ''.''"
    using s by (auto simp: suffix_def)
  ultimately show False
    using l(2) by (simp add: is_sentence_end_def)
qed

text \<open>
  C9. When the page of the entity loads and its text can be read, the formatter works
  on that text, whatever it is. The sentences found are the stripped pieces of the text
  that are not empty and contain an education keyword, in their order; the response
  holds the first four of them at most, joined, between the header and the link; and
  what stands between header and link ends with an ellipsis exactly when more than four
  sentences were found. When none is found, the response is the fixed notice.
\<close>

theorem education_formatter:
  assumes "do_page W entity_name False s = (Inr p, s1)" and "content p = Inr text"
  shows "list_all (\<lambda>x. x \<noteq> [] \<and> any_in education_keywords (lower x))
           (education_sentences education_keywords text)
       \<and> subseq (education_sentences education_keywords text) (map strip (re_split text))
       \<and> prefix (take 4 (education_sentences education_keywords text))
            (education_sentences education_keywords text)
       \<and> length (take 4 (education_sentences education_keywords text)) \<le> 4
       \<and> (education_sentences education_keywords text \<noteq> [] \<longrightarrow>
            extract_education_info W response entity_name s
            = (Inr (education_header entity_name
                    @ (join ''. '' (take 4 (education_sentences education_keywords text))
                       @ (if 4 < length (education_sentences education_keywords text)
                          then ''...'' else []))
                    @ education_footer p), s1)
          \<and> (suffix ''...''
                (join ''. '' (take 4 (education_sentences education_keywords text))
                 @ (if 4 < length (education_sentences education_keywords text)
                    then ''...'' else []))
              \<longleftrightarrow> 4 < length (education_sentences education_keywords text)))
       \<and> (education_sentences education_keywords text = [] \<longrightarrow>
            extract_education_info W response entity_name s
            = (Inr (no_education_details entity_name p), s1))"
proof -
  let ?found = "education_sentences education_keywords text"
  have a: "list_all (\<lambda>x. x \<noteq> [] \<and> any_in education_keywords (lower x)) ?found"
    using education_sentences_props(1,2) by (auto simp: list_all_iff)
  have b: "subseq ?found (map strip (re_split text))"
    by (simp add: education_sentences_def)
  have c: "prefix (take 4 ?found) ?found"
    by (rule take_is_prefix)
  have r: "extract_education_info W response entity_name s
           = (Inr (education_from_article entity_name p text), s1)"
    using assms by (simp add: extract_education_info_def)
  have e: "suffix ''...'' (join ''. '' (take 4 ?found) @ (if 4 < length ?found then ''...'' else []))
           \<longleftrightarrow> 4 < length ?found" if "?found \<noteq> []"
  proof (cases "4 < length ?found")
    case True
    then show ?thesis by (simp add: suffix_def)
  next
    case False
    have "\<not> suffix ''...'' (join ''. '' (take 4 ?found))"
      using that education_sentences_props(1,3) by (intro body_no_ellipsis) auto
    then show ?thesis using False by simp
  qed
  show ?thesis
    using a b c e
    by (simp add: r education_from_article_def Let_def del: join.simps)
qed

lemma ada_found:
  "education_sentences education_keywords
     (''Ada Lovelace was a mathematician. Her education was private! ''
      @ ''She studied with tutors. She met Babbage in 1833. ''
      @ ''She attended lectures. Did she earn a degree? ''
      @ ''The University of London admitted her tutor.'')
   = [''Her education was private'', ''She studied with tutors'', ''She attended lectures'',
      ''Did she earn a degree'', ''The University of London admitted her tutor'']"
  by code_simp

theorem education_formatter_witness:
  "extract_education_info ada_wikipedia [] ''Ada Lovelace'' \<lparr>world = 0, calls = []\<rparr>
   = (Inr (''**Ada Lovelace - Education**\<newline>\<newline>''
           @ ''Her education was private. She studied with tutors. She attended lectures. ''
           @ ''Did she earn a degree...''
           @ ''\<newline>\<newline> [Read more on Wikipedia](https://en.wikipedia.org/wiki/Ada_Lovelace)''),
      \<lparr>world = 1, calls = [PageCall ''Ada Lovelace'' False]\<rparr>)"
proof -
  have h1: "do_page ada_wikipedia ''Ada Lovelace'' False \<lparr>world = 0, calls = []\<rparr>
            = (Inr ada_page, \<lparr>world = 1, calls = [PageCall ''Ada Lovelace'' False]\<rparr>)"
    by (simp add: do_page_def ada_wikipedia_def)
  have h2: "content ada_page
            = Inr (''Ada Lovelace was a mathematician. Her education was private! ''
                   @ ''She studied with tutors. She met Babbage in 1833. ''
                   @ ''She attended lectures. Did she earn a degree? ''
                   @ ''The University of London admitted her tutor.'')"
    by (simp add: ada_page_def)
  show ?thesis
    using education_formatter [OF h1 h2, of "[]"]
    unfolding ada_found
    by (simp add: education_header_def education_footer_def ada_page_def)
qed

end
